theory Spec2Isabelle
  imports Main "HOL-Library.Word" "HOL-Library.Sublist"
begin

section \<open>Go values used by the client\<close>

text \<open>
  The client in \<^verbatim>\<open>pkg/clients/aws/client.go\<close> is a facade over two remote services.
  Go's \<^verbatim>\<open>int\<close> is taken on a 64-bit platform: a 64-bit two's complement word, whose
  \<open>+\<close> and \<open>-\<close> wrap and which \<open>sint\<close> reads as a signed number. A pointer field of a
  vendor struct (\<^verbatim>\<open>*string\<close>, \<^verbatim>\<open>*int64\<close>, \<^verbatim>\<open>*IssuerDetails\<close>) is an \<open>option\<close>:
  \<open>None\<close> is the nil pointer. Go strings are byte strings, as \<open>string\<close> is here.
\<close>

type_synonym go_int = "64 word"
type_synonym int32 = "32 word"
type_synonym int64 = "64 word"

subsection \<open>The \<^verbatim>\<open>error\<close> interface\<close>

text \<open>
  An \<^verbatim>\<open>error\<close> is observed by this package only through its \<^verbatim>\<open>Error()\<close> string.
  \<open>errorString\<close> stands for the values of \<^verbatim>\<open>errors.New\<close> and \<^verbatim>\<open>fmt.Errorf\<close> and for
  whatever error a remote service hands back; \<open>NumError\<close> is \<^verbatim>\<open>*strconv.NumError\<close>
  with its fields \<^verbatim>\<open>Func\<close>, \<^verbatim>\<open>Num\<close> and \<^verbatim>\<open>Err\<close>.
\<close>

datatype error = errorString string | NumError string string error

definition ErrSyntax :: error where
  "ErrSyntax = errorString ''invalid syntax''"

definition ErrRange :: error where
  "ErrRange = errorString ''value out of range''"

definition hexdigit :: "nat \<Rightarrow> char" where
  "hexdigit d = ''0123456789abcdef'' ! (d mod 16)"

text \<open>
  \<^verbatim>\<open>strconv.Quote\<close>, which writes the \<^verbatim>\<open>Num\<close> of a \<open>NumError\<close> into its text. The
  string is read rune by rune as UTF-8. A byte that starts no valid encoding is written
  \<^verbatim>\<open>\xNN\<close>; a quote or a backslash gets a backslash; a printable rune is copied; the
  other runes are written as \<^verbatim>\<open>\a \b \f \n \r \t \v\<close>, \<^verbatim>\<open>\xNN\<close>, \<^verbatim>\<open>\uNNNN\<close> or
  \<^verbatim>\<open>\UNNNNNNNN\<close>. Whether a rune up to U+00FF is printable the library decides by
  comparison, as here. For the runes above U+00FF it reads its Unicode tables, which are
  a parameter of this theory: \<open>isPrint_table\<close> is left unspecified, and nothing proved
  here depends on it.
\<close>

definition isPrint_table :: "nat \<Rightarrow> bool" where
  "isPrint_table = undefined"

definition IsPrint :: "nat \<Rightarrow> bool" where
  "IsPrint r =
     (if r \<le> 0xFF then (0x20 \<le> r \<and> r < 0x7F) \<or> (0xA1 \<le> r \<and> r \<noteq> 0xAD)
      else isPrint_table r)"

text \<open>\<^verbatim>\<open>utf8.DecodeRuneInString\<close> on bytes that start with a byte from \<open>0x80\<close> on: the
  rune and its width, or nothing where the library returns \<^verbatim>\<open>RuneError\<close> with width 1.\<close>

definition DecodeRune :: "nat list \<Rightarrow> (nat \<times> nat) option" where
  "DecodeRune bs =
     (case bs of
        [] \<Rightarrow> None
      | b0 # t \<Rightarrow>
          if 0xC2 \<le> b0 \<and> b0 \<le> 0xDF then
            (case t of
               b1 # _ \<Rightarrow>
                 if 0x80 \<le> b1 \<and> b1 \<le> 0xBF
                 then Some ((b0 - 0xC0) * 64 + (b1 - 0x80), 2) else None
             | _ \<Rightarrow> None)
          else if 0xE0 \<le> b0 \<and> b0 \<le> 0xEF then
            (case t of
               b1 # b2 # _ \<Rightarrow>
                 if (if b0 = 0xE0 then 0xA0 else 0x80) \<le> b1
                    \<and> b1 \<le> (if b0 = 0xED then 0x9F else 0xBF)
                    \<and> 0x80 \<le> b2 \<and> b2 \<le> 0xBF
                 then Some ((b0 - 0xE0) * 4096 + (b1 - 0x80) * 64 + (b2 - 0x80), 3) else None
             | _ \<Rightarrow> None)
          else if 0xF0 \<le> b0 \<and> b0 \<le> 0xF4 then
            (case t of
               b1 # b2 # b3 # _ \<Rightarrow>
                 if (if b0 = 0xF0 then 0x90 else 0x80) \<le> b1
                    \<and> b1 \<le> (if b0 = 0xF4 then 0x8F else 0xBF)
                    \<and> 0x80 \<le> b2 \<and> b2 \<le> 0xBF \<and> 0x80 \<le> b3 \<and> b3 \<le> 0xBF
                 then Some ((b0 - 0xF0) * 262144 + (b1 - 0x80) * 4096 + (b2 - 0x80) * 64
                            + (b3 - 0x80), 4)
                 else None
             | _ \<Rightarrow> None)
          else None)"

text \<open>The \<open>n\<close> lowest hexadecimal digits of \<open>r\<close>, the highest first.\<close>

definition hex :: "nat \<Rightarrow> nat \<Rightarrow> string" where
  "hex n r = map (\<lambda>i. hexdigit (r div 16 ^ i)) (rev [0..<n])"

definition quote_ascii :: "char \<Rightarrow> string" where
  "quote_ascii c =
     (if c = CHR 0x22 \<or> c = CHR 0x5C then [CHR 0x5C, c]
      else if IsPrint (of_char c) then [c]
      else if c = CHR 0x07 then [CHR 0x5C, CHR ''a'']
      else if c = CHR 0x08 then [CHR 0x5C, CHR ''b'']
      else if c = CHR 0x0C then [CHR 0x5C, CHR ''f'']
      else if c = CHR 0x0A then [CHR 0x5C, CHR ''n'']
      else if c = CHR 0x0D then [CHR 0x5C, CHR ''r'']
      else if c = CHR 0x09 then [CHR 0x5C, CHR ''t'']
      else if c = CHR 0x0B then [CHR 0x5C, CHR ''v'']
      else [CHR 0x5C, CHR ''x''] @ hex 2 (of_char c))"

text \<open>What is written for the rune at the head of a string that is not empty, and the
  number of bytes the rune takes.\<close>

definition quote_rune :: "string \<Rightarrow> string \<times> nat" where
  "quote_rune s =
     (if (of_char (hd s) :: nat) < 0x80 then (quote_ascii (hd s), 1)
      else (case DecodeRune (map of_char s) of
              None \<Rightarrow> ([CHR 0x5C, CHR ''x''] @ hex 2 (of_char (hd s)), 1)
            | Some (r, width) \<Rightarrow>
                (if IsPrint r then take width s
                 else if r < 0x10000 then [CHR 0x5C, CHR ''u''] @ hex 4 r
                 else [CHR 0x5C, CHR ''U''] @ hex 8 r, width)))"

text \<open>The loop over the string; \<open>skip\<close> counts the bytes still to pass over of the rune
  written last.\<close>

fun quote_loop :: "nat \<Rightarrow> string \<Rightarrow> string" where
  "quote_loop skip [] = []"
| "quote_loop (Suc skip) (c # cs) = quote_loop skip cs"
| "quote_loop 0 (c # cs) =
     (case quote_rune (c # cs) of (text, width) \<Rightarrow> text @ quote_loop (width - 1) cs)"

definition Quote :: "string \<Rightarrow> string" where
  "Quote s = [CHR 0x22] @ quote_loop 0 s @ [CHR 0x22]"

primrec Error :: "error \<Rightarrow> string" where
  "Error (errorString s) = s"
| "Error (NumError fn num err) =
     ''strconv.'' @ fn @ '': parsing '' @ Quote num @ '': '' @ Error err"

subsection \<open>The vendor's types\<close>

text \<open>
  The structs of the AWS SDK (\<^verbatim>\<open>licensemanager\<close>, \<^verbatim>\<open>licensemanager/types\<close>,
  \<^verbatim>\<open>sts\<close>) with the fields this package reads or writes; the fields it never
  touches are left out.
\<close>

record Filter =
  Name :: "string option"
  Values :: "string list"

record ListReceivedLicensesInput =
  Filters :: "Filter list"
  MaxResults :: "int32 option"

record IssuerDetails =
  KeyFingerprint :: "string option"

record Entitlement =
  Name :: "string option"
  MaxCount :: "int64 option"

record GrantedLicense =
  LicenseArn :: "string option"
  ProductSKU :: "string option"
  Issuer :: "IssuerDetails option"
  Entitlements :: "Entitlement list"

record ListReceivedLicensesOutput =
  Licenses :: "GrantedLicense list"

datatype CheckoutType = CheckoutTypeProvisional | CheckoutTypePerpetual

record EntitlementData =
  Name :: "string option"
  Unit :: string
  Value :: "string option"

record CheckoutLicenseInput =
  CheckoutType :: CheckoutType
  ClientToken :: "string option"
  ProductSKU :: "string option"
  KeyFingerprint :: "string option"
  Entitlements :: "EntitlementData list"

record CheckoutLicenseOutput =
  LicenseConsumptionToken :: "string option"
  Expiration :: "string option"

record CheckInLicenseInput =
  LicenseConsumptionToken :: "string option"

record CheckInLicenseOutput =
  ResultMetadata :: "(string \<times> string) list"

record ExtendLicenseConsumptionInput =
  LicenseConsumptionToken :: "string option"

record ExtendLicenseConsumptionOutput =
  LicenseConsumptionToken :: "string option"
  Expiration :: "string option"

record GetLicenseUsageInput =
  LicenseArn :: "string option"

record EntitlementUsage =
  Name :: "string option"
  ConsumedValue :: "string option"

record LicenseUsage =
  EntitlementUsages :: "EntitlementUsage list"

record GetLicenseUsageOutput =
  LicenseUsage :: "LicenseUsage option"

record GetCallerIdentityOutput =
  Account :: "string option"

subsection \<open>The remote services and the world\<close>

text \<open>
  \<^verbatim>\<open>licenseManagerClient\<close> and \<^verbatim>\<open>stsClient\<close> are interfaces: a value of either is a
  record of its methods. A method acts on the state \<open>'s\<close> of whatever stands behind the
  interface (the remote service, or a test double) and answers with an error or with an
  output; the SDK never answers with both or with neither.
\<close>

record 's licenseManagerClient =
  ListReceivedLicenses ::
    "ListReceivedLicensesInput \<Rightarrow> 's \<Rightarrow> (error + ListReceivedLicensesOutput) \<times> 's"
  CheckoutLicense ::
    "CheckoutLicenseInput \<Rightarrow> 's \<Rightarrow> (error + CheckoutLicenseOutput) \<times> 's"
  CheckInLicense ::
    "CheckInLicenseInput \<Rightarrow> 's \<Rightarrow> (error + CheckInLicenseOutput) \<times> 's"
  ExtendLicenseConsumption ::
    "ExtendLicenseConsumptionInput \<Rightarrow> 's \<Rightarrow> (error + ExtendLicenseConsumptionOutput) \<times> 's"
  GetLicenseUsage ::
    "GetLicenseUsageInput \<Rightarrow> 's \<Rightarrow> (error + GetLicenseUsageOutput) \<times> 's"

record 's stsClient =
  GetCallerIdentity :: "unit \<Rightarrow> 's \<Rightarrow> (error + GetCallerIdentityOutput) \<times> 's"

text \<open>The struct \<^verbatim>\<open>client\<close>.\<close>

record 's client =
  acctNum :: string
  sts :: "'s stsClient"
  lm :: "'s licenseManagerClient"

text \<open>A request sent to the License Manager.\<close>

datatype lm_call =
    ListReceivedLicensesCall ListReceivedLicensesInput
  | CheckoutLicenseCall CheckoutLicenseInput
  | CheckInLicenseCall CheckInLicenseInput
  | ExtendLicenseConsumptionCall ExtendLicenseConsumptionInput
  | GetLicenseUsageCall GetLicenseUsageInput

text \<open>
  Everything outside the client struct: the state behind the two interfaces, the
  requests sent to the License Manager so far (oldest first), and the random source of
  \<^verbatim>\<open>uuid.New()\<close>, given as the sequence of strings it is going to produce and the
  number of them already drawn. That \<^verbatim>\<open>uuid.New()\<close> panics when the random source of
  the operating system fails is left out.
\<close>

record 's world =
  remote :: 's
  lm_calls :: "lm_call list"
  uuid_rand :: "nat \<Rightarrow> string"
  uuid_drawn :: nat

text \<open>A method call \<^verbatim>\<open>c.lm.M(ctx, in)\<close>: the request is sent and the answer read.\<close>

definition send ::
  "(lm_call) \<Rightarrow> ('s \<Rightarrow> 'r \<times> 's) \<Rightarrow> 's world \<Rightarrow> 'r \<times> 's world" where
  "send call m w =
     (case m (remote w) of
        (r, s') \<Rightarrow> (r, w\<lparr>remote := s', lm_calls := lm_calls w @ [call]\<rparr>))"

text \<open>\<^verbatim>\<open>uuid.New().String()\<close>: the next string of the random source.\<close>

definition uuid_New :: "'s world \<Rightarrow> string \<times> 's world" where
  "uuid_New w = (uuid_rand w (uuid_drawn w), w\<lparr>uuid_drawn := Suc (uuid_drawn w)\<rparr>)"

text \<open>
  The packages \<^verbatim>\<open>config\<close>, \<^verbatim>\<open>sts\<close> and \<^verbatim>\<open>licensemanager\<close> as far as \<^verbatim>\<open>NewClient\<close>
  calls them; \<open>'cfg\<close> is \<^verbatim>\<open>aws.Config\<close>.
\<close>

record ('s, 'cfg) aws_sdk =
  LoadDefaultConfig :: "'s \<Rightarrow> (error + 'cfg) \<times> 's"
  sts_NewFromConfig :: "'cfg \<Rightarrow> 's stsClient"
  lm_NewFromConfig :: "'cfg \<Rightarrow> 's licenseManagerClient"

section \<open>The client\<close>

text \<open>
  A Go result \<^verbatim>\<open>(*T, error)\<close> is a pair of options, \<^verbatim>\<open>(string, error)\<close> and
  \<^verbatim>\<open>(int, error)\<close> a value and an optional error. A method has the pointer receiver
  \<^verbatim>\<open>c *client\<close>: it takes the struct and the world and returns its result with both.
\<close>

subsection \<open>Construction\<close>

text \<open>The two \<^verbatim>\<open>logrus.Debugf\<close> lines of \<^verbatim>\<open>NewClient\<close> change no result and are left
  out.\<close>

definition getAccountNumber ::
  "'s client \<Rightarrow> 's world \<Rightarrow> (string \<times> error option) \<times> 's client \<times> 's world" where
  "getAccountNumber c w =
     (case GetCallerIdentity (sts c) () (remote w) of
        (Inl err, s') \<Rightarrow> (([], Some err), c, w\<lparr>remote := s'\<rparr>)
      | (Inr out, s') \<Rightarrow>
          (case Account out of
             None \<Rightarrow>
               (([], Some (errorString ''account number empty in aws sts response'')),
                c, w\<lparr>remote := s'\<rparr>)
           | Some a \<Rightarrow>
               if length a = 0
               then (([], Some (errorString ''account number empty in aws sts response'')),
                     c, w\<lparr>remote := s'\<rparr>)
               else ((a, None), c, w\<lparr>remote := s'\<rparr>)))"

definition NewClient ::
  "('s, 'cfg) aws_sdk \<Rightarrow> 's world \<Rightarrow> ('s client option \<times> error option) \<times> 's world" where
  "NewClient sdk w =
     (case LoadDefaultConfig sdk (remote w) of
        (Inl err, s') \<Rightarrow> ((None, Some err), w\<lparr>remote := s'\<rparr>)
      | (Inr cfg, s') \<Rightarrow>
          (let c = \<lparr>acctNum = [], sts = sts_NewFromConfig sdk cfg,
                    lm = lm_NewFromConfig sdk cfg\<rparr>
           in case getAccountNumber c (w\<lparr>remote := s'\<rparr>) of
                ((acct, Some err), c', w') \<Rightarrow> ((None, Some err), w')
              | ((acct, None), c', w') \<Rightarrow> ((Some (c'\<lparr>acctNum := acct\<rparr>), None), w')))"

definition AccountNumber :: "'s client \<Rightarrow> 's world \<Rightarrow> string \<times> 's client \<times> 's world" where
  "AccountNumber c w = (acctNum c, c, w)"

subsection \<open>Looking the license up\<close>

definition productSKUField :: string where
  "productSKUField = ''ProductSKU''"

definition rancherProductSKUNonEmea :: string where
  "rancherProductSKUNonEmea = ''0b87d4fa-d1fe-41d8-830b-67d4ec381549''"

definition rancherProductSKUEmea :: string where
  "rancherProductSKUEmea = ''a303097d-1dc2-4548-8ea6-f46bb9842e21''"

definition maxResults :: int32 where
  "maxResults = 1"

definition getLicenseForProductID ::
  "'s client \<Rightarrow> string \<Rightarrow> 's world \<Rightarrow>
     (GrantedLicense option \<times> error option) \<times> 's client \<times> 's world" where
  "getLicenseForProductID c productID w =
     (let input = \<lparr>Filters = [\<lparr>Filter.Name = Some productSKUField, Values = [productID]\<rparr>],
                   MaxResults = Some maxResults\<rparr>
      in case send (ListReceivedLicensesCall input) (ListReceivedLicenses (lm c) input) w of
           (Inl err, w') \<Rightarrow> ((None, Some err), c, w')
         | (Inr res, w') \<Rightarrow>
             (case Licenses res of
                [] \<Rightarrow>
                  ((None, Some (errorString
                      (''unable to find license for product id '' @ productID))), c, w')
              | license # _ \<Rightarrow>
                  (case GrantedLicense.ProductSKU license of
                     None \<Rightarrow>
                       ((Some (license\<lparr>GrantedLicense.ProductSKU := Some productID\<rparr>), None),
                        c, w')
                   | Some _ \<Rightarrow> ((Some license, None), c, w'))))"

definition GetRancherLicense ::
  "'s client \<Rightarrow> 's world \<Rightarrow>
     (GrantedLicense option \<times> error option) \<times> 's client \<times> 's world" where
  "GetRancherLicense c w =
     (case getLicenseForProductID c rancherProductSKUNonEmea w of
        ((license, None), c1, w1) \<Rightarrow> ((license, None), c1, w1)
      | ((_, Some err), c1, w1) \<Rightarrow>
          (case getLicenseForProductID c1 rancherProductSKUEmea w1 of
             ((_, Some newErr), c2, w2) \<Rightarrow>
               ((None, Some (errorString
                   (''unable to get license for non-emea: '' @ Error err @
                    '', unable to get license for emea: '' @ Error newErr))), c2, w2)
           | ((license, None), c2, w2) \<Rightarrow> ((license, None), c2, w2)))"

subsection \<open>Checking out, checking in, extending\<close>

definition entitlementDimension :: string where
  "entitlementDimension = ''RKE_NODE_SUPP''"

definition entitlementUnit :: string where
  "entitlementUnit = ''Count''"

text \<open>\<^verbatim>\<open>fmt.Sprintf("%d", n)\<close> for an \<^verbatim>\<open>int\<close>: the decimal digits, after a minus sign
  when the number is negative.\<close>

fun digits :: "nat \<Rightarrow> string" where
  "digits n =
     (if n < 10 then [''0123456789'' ! n]
      else digits (n div 10) @ [''0123456789'' ! (n mod 10)])"

definition Sprintf_d :: "go_int \<Rightarrow> string" where
  "Sprintf_d n = (if sint n < 0 then CHR ''-'' # digits (nat (- sint n)) else digits (nat (sint n)))"

definition CheckoutRancherLicense ::
  "'s client \<Rightarrow> GrantedLicense \<Rightarrow> go_int \<Rightarrow> 's world \<Rightarrow>
     (CheckoutLicenseOutput option \<times> error option) \<times> 's client \<times> 's world" where
  "CheckoutRancherLicense c l entitlementAmt w =
     (if Issuer l = None \<or> IssuerDetails.KeyFingerprint (the (Issuer l)) = None
      then (case GrantedLicense.LicenseArn l of
              None \<Rightarrow>
                ((None, Some (errorString ''license is missing arn and KeyFingerprint/Issuer'')),
                 c, w)
            | Some arn \<Rightarrow>
                ((None, Some (errorString
                    (''license '' @ arn @ '' must have a KeyFingerprint for checkout''))), c, w))
      else (case uuid_New w of
              (token, w1) \<Rightarrow>
                (let entitlementStr = Sprintf_d entitlementAmt;
                     input = \<lparr>CheckoutType = CheckoutTypeProvisional,
                              ClientToken = Some token,
                              ProductSKU = GrantedLicense.ProductSKU l,
                              KeyFingerprint = IssuerDetails.KeyFingerprint (the (Issuer l)),
                              Entitlements =
                                [\<lparr>EntitlementData.Name = Some entitlementDimension,
                                  Unit = entitlementUnit,
                                  Value = Some entitlementStr\<rparr>]\<rparr>
                 in case send (CheckoutLicenseCall input) (CheckoutLicense (lm c) input) w1 of
                      (Inl err, w2) \<Rightarrow> ((None, Some err), c, w2)
                    | (Inr res, w2) \<Rightarrow> ((Some res, None), c, w2))))"

definition CheckInRancherLicense ::
  "'s client \<Rightarrow> string \<Rightarrow> 's world \<Rightarrow>
     (CheckInLicenseOutput option \<times> error option) \<times> 's client \<times> 's world" where
  "CheckInRancherLicense c consumptionToken w =
     (let input = \<lparr>CheckInLicenseInput.LicenseConsumptionToken = Some consumptionToken\<rparr>
      in case send (CheckInLicenseCall input) (CheckInLicense (lm c) input) w of
           (Inl err, w') \<Rightarrow> ((None, Some err), c, w')
         | (Inr res, w') \<Rightarrow> ((Some res, None), c, w'))"

definition ExtendRancherLicenseConsumptionToken ::
  "'s client \<Rightarrow> string \<Rightarrow> 's world \<Rightarrow>
     (ExtendLicenseConsumptionOutput option \<times> error option) \<times> 's client \<times> 's world" where
  "ExtendRancherLicenseConsumptionToken c consumptionToken w =
     (let input =
            \<lparr>ExtendLicenseConsumptionInput.LicenseConsumptionToken = Some consumptionToken\<rparr>
      in case send (ExtendLicenseConsumptionCall input)
                (ExtendLicenseConsumption (lm c) input) w of
           (Inl err, w') \<Rightarrow> ((None, Some err), c, w')
         | (Inr res, w') \<Rightarrow> ((Some res, None), c, w'))"

subsection \<open>Counting the entitlements left\<close>

text \<open>
  \<^verbatim>\<open>strconv.Atoi\<close> on a 64-bit platform, as the library's \<^verbatim>\<open>ParseUint\<close> and
  \<^verbatim>\<open>ParseInt\<close> compute it in base 10: an optional sign, then decimal digits only. The
  digits are read from the left; the value is given up as out of range at the first
  digit that takes it past 64 bits. With the error comes the value the library returns
  beside it.
\<close>

definition maxUint64 :: nat where
  "maxUint64 = 18446744073709551615"

fun ParseUint_loop :: "nat \<Rightarrow> string \<Rightarrow> nat \<times> error option" where
  "ParseUint_loop n [] = (n, None)"
| "ParseUint_loop n (c # cs) =
     (if 48 \<le> (of_char c :: nat) \<and> (of_char c :: nat) \<le> 57
      then (if n \<ge> maxUint64 div 10 + 1 then (maxUint64, Some ErrRange)
            else (let n1 = n * 10 + (of_char c - 48)
                  in if n1 > maxUint64 then (maxUint64, Some ErrRange)
                     else ParseUint_loop n1 cs))
      else (0, Some ErrSyntax))"

definition ParseUint :: "string \<Rightarrow> nat \<times> error option" where
  "ParseUint s = (if s = [] then (0, Some ErrSyntax) else ParseUint_loop 0 s)"

definition Atoi :: "string \<Rightarrow> go_int \<times> error option" where
  "Atoi s0 =
     (if s0 = [] then (0, Some (NumError ''Atoi'' s0 ErrSyntax))
      else (let neg = (hd s0 = CHR ''-'');
                s = (if hd s0 = CHR ''+'' \<or> hd s0 = CHR ''-'' then tl s0 else s0)
            in case ParseUint s of
                 (un, err) \<Rightarrow>
                   if err = Some ErrSyntax then (0, Some (NumError ''Atoi'' s0 ErrSyntax))
                   else if \<not> neg \<and> un \<ge> 2 ^ 63
                     then (of_nat (2 ^ 63 - 1), Some (NumError ''Atoi'' s0 ErrRange))
                   else if neg \<and> un > 2 ^ 63
                     then (- of_nat (2 ^ 63), Some (NumError ''Atoi'' s0 ErrRange))
                   else (if neg then - of_nat un else of_nat un, None)))"

text \<open>
  What a call of \<^verbatim>\<open>GetNumberOfAvailableEntitlements\<close> or \<^verbatim>\<open>getMaxRKEEntitlements\<close>
  ends in: the returned pair, or the run-time panic of reading through a nil pointer.
\<close>

datatype 'a outcome = Returns 'a | Panics

fun getMaxRKEEntitlements_loop ::
  "GrantedLicense \<Rightarrow> Entitlement list \<Rightarrow> (go_int \<times> error option) outcome" where
  "getMaxRKEEntitlements_loop license [] =
     (case GrantedLicense.LicenseArn license of
        None \<Rightarrow> Panics
      | Some arn \<Rightarrow>
          Returns (0, Some (errorString
            (''entitlement '' @ entitlementDimension @ '' not found on license for '' @ arn))))"
| "getMaxRKEEntitlements_loop license (entitlement # rest) =
     (case Entitlement.Name entitlement of
        None \<Rightarrow> Panics
      | Some name \<Rightarrow>
          if name = entitlementDimension
          then (case MaxCount entitlement of
                  None \<Rightarrow> Panics
                | Some maxCount \<Rightarrow> Returns (maxCount, None))
          else getMaxRKEEntitlements_loop license rest)"

definition getMaxRKEEntitlements :: "GrantedLicense \<Rightarrow> (go_int \<times> error option) outcome" where
  "getMaxRKEEntitlements license =
     getMaxRKEEntitlements_loop license (GrantedLicense.Entitlements license)"

text \<open>The loop over the usage records, with the statement after it: \<open>total'\<close> is the sum
  so far.\<close>

fun usage_loop ::
  "go_int \<Rightarrow> go_int \<Rightarrow> EntitlementUsage list \<Rightarrow> (go_int \<times> error option) outcome" where
  "usage_loop maxEntitlements total' [] = Returns (maxEntitlements - total', None)"
| "usage_loop maxEntitlements total' (usage # rest) =
     (case EntitlementUsage.Name usage of
        None \<Rightarrow> Panics
      | Some name \<Rightarrow>
          if name = entitlementDimension
          then (case ConsumedValue usage of
                  None \<Rightarrow> Panics
                | Some str \<Rightarrow>
                    (case Atoi str of
                       (consumedValue, Some err) \<Rightarrow> Returns (0, Some err)
                     | (consumedValue, None) \<Rightarrow>
                         usage_loop maxEntitlements (total' + consumedValue) rest))
          else usage_loop maxEntitlements total' rest)"

definition GetNumberOfAvailableEntitlements ::
  "'s client \<Rightarrow> GrantedLicense \<Rightarrow> 's world \<Rightarrow>
     (go_int \<times> error option) outcome \<times> 's client \<times> 's world" where
  "GetNumberOfAvailableEntitlements c license w =
     (let input = \<lparr>GetLicenseUsageInput.LicenseArn = GrantedLicense.LicenseArn license\<rparr>
      in case send (GetLicenseUsageCall input) (GetLicenseUsage (lm c) input) w of
           (Inl err, w') \<Rightarrow> (Returns (0, Some err), c, w')
         | (Inr res, w') \<Rightarrow>
             (case getMaxRKEEntitlements license of
                Panics \<Rightarrow> (Panics, c, w')
              | Returns (maxEntitlements, Some err) \<Rightarrow> (Returns (0, Some err), c, w')
              | Returns (maxEntitlements, None) \<Rightarrow>
                  (case LicenseUsage res of
                     None \<Rightarrow> (Panics, c, w')
                   | Some lu \<Rightarrow>
                       (usage_loop maxEntitlements 0 (EntitlementUsages lu), c, w'))))"

section \<open>Runs of operations and test doubles\<close>

text \<open>
  The operations of the interface \<^verbatim>\<open>Client\<close> with their arguments, and a caller that
  invokes them one after the other on the same client, dropping the results.
\<close>

datatype operation =
    OpAccountNumber
  | OpGetRancherLicense
  | OpCheckoutRancherLicense GrantedLicense go_int
  | OpCheckInRancherLicense string
  | OpExtendRancherLicenseConsumptionToken string
  | OpGetNumberOfAvailableEntitlements GrantedLicense

fun invoke :: "operation \<Rightarrow> 's client \<times> 's world \<Rightarrow> 's client \<times> 's world" where
  "invoke OpAccountNumber (c, w) = snd (AccountNumber c w)"
| "invoke OpGetRancherLicense (c, w) = snd (GetRancherLicense c w)"
| "invoke (OpCheckoutRancherLicense l n) (c, w) = snd (CheckoutRancherLicense c l n w)"
| "invoke (OpCheckInRancherLicense t) (c, w) = snd (CheckInRancherLicense c t w)"
| "invoke (OpExtendRancherLicenseConsumptionToken t) (c, w) =
     snd (ExtendRancherLicenseConsumptionToken c t w)"
| "invoke (OpGetNumberOfAvailableEntitlements l) (c, w) =
     snd (GetNumberOfAvailableEntitlements c l w)"

fun run :: "operation list \<Rightarrow> 's client \<times> 's world \<Rightarrow> 's client \<times> 's world" where
  "run [] cw = cw"
| "run (x # xs) cw = run xs (invoke x cw)"

text \<open>The idempotency tokens of the checkout requests in a list of requests.\<close>

fun checkout_tokens :: "lm_call list \<Rightarrow> string option list" where
  "checkout_tokens [] = []"
| "checkout_tokens (CheckoutLicenseCall inp # calls) = ClientToken inp # checkout_tokens calls"
| "checkout_tokens (_ # calls) = checkout_tokens calls"

text \<open>The request of a lookup by product SKU.\<close>

definition lookup_call :: "string \<Rightarrow> lm_call" where
  "lookup_call sku =
     ListReceivedLicensesCall
       \<lparr>Filters = [\<lparr>Filter.Name = Some ''ProductSKU'', Values = [sku]\<rparr>],
        MaxResults = Some 1\<rparr>"

text \<open>The consumed counts of the usage records named \<^verbatim>\<open>RKE_NODE_SUPP\<close>, in order.\<close>

fun consumed_counts :: "EntitlementUsage list \<Rightarrow> go_int list" where
  "consumed_counts [] = []"
| "consumed_counts (u # us) =
     (if EntitlementUsage.Name u = Some ''RKE_NODE_SUPP''
      then fst (Atoi (the (ConsumedValue u))) # consumed_counts us
      else consumed_counts us)"

text \<open>
  A test double of the License Manager: it counts the requests it has served, answers a
  lookup from a table of licenses by product SKU, and answers a checkout and a usage
  request with a fixed reply.
\<close>

definition stub_lm ::
  "(string \<Rightarrow> error + GrantedLicense list) \<Rightarrow> (error + CheckoutLicenseOutput) \<Rightarrow>
   (error + GetLicenseUsageOutput) \<Rightarrow> nat licenseManagerClient" where
  "stub_lm table checkout usage =
     \<lparr>ListReceivedLicenses = (\<lambda>inp n.
        (case Filters inp of
           [f] \<Rightarrow> (case Values f of
                     [sku] \<Rightarrow> (case table sku of
                                 Inl e \<Rightarrow> Inl e
                               | Inr ls \<Rightarrow> Inr \<lparr>Licenses = ls\<rparr>)
                   | _ \<Rightarrow> Inl (errorString ''ValidationException''))
         | _ \<Rightarrow> Inl (errorString ''ValidationException''), Suc n)),
      CheckoutLicense = (\<lambda>inp n. (checkout, Suc n)),
      CheckInLicense = (\<lambda>inp n. (Inr \<lparr>ResultMetadata = []\<rparr>, Suc n)),
      ExtendLicenseConsumption = (\<lambda>inp n.
        (Inr \<lparr>ExtendLicenseConsumptionOutput.LicenseConsumptionToken =
                ExtendLicenseConsumptionInput.LicenseConsumptionToken inp,
              Expiration = None\<rparr>, Suc n)),
      GetLicenseUsage = (\<lambda>inp n. (usage, Suc n))\<rparr>"

definition stub_sts :: "(error + GetCallerIdentityOutput) \<Rightarrow> nat stsClient" where
  "stub_sts identity = \<lparr>GetCallerIdentity = (\<lambda>_ n. (identity, Suc n))\<rparr>"

definition stub_sdk ::
  "(error + unit) \<Rightarrow> (error + GetCallerIdentityOutput) \<Rightarrow> (nat, unit) aws_sdk" where
  "stub_sdk loaded identity =
     \<lparr>LoadDefaultConfig = (\<lambda>n. (loaded, n)),
      sts_NewFromConfig = (\<lambda>_. stub_sts identity),
      lm_NewFromConfig = (\<lambda>_. stub_lm (\<lambda>_. Inr []) (Inl (errorString ''none''))
                                  (Inl (errorString ''none'')))\<rparr>"

definition stub_client :: "nat licenseManagerClient \<Rightarrow> nat client" where
  "stub_client l =
     \<lparr>acctNum = ''123456789012'',
      sts = stub_sts (Inr \<lparr>Account = Some ''123456789012''\<rparr>), lm = l\<rparr>"

definition world0 :: "nat world" where
  "world0 = \<lparr>remote = 0, lm_calls = [], uuid_rand = (\<lambda>i. replicate (Suc i) CHR ''f''),
             uuid_drawn = 0\<rparr>"

definition rke_license :: "string option \<Rightarrow> int64 \<Rightarrow> GrantedLicense" where
  "rke_license sku m =
     \<lparr>GrantedLicense.LicenseArn = Some ''arn:aws:license-manager::123456789012:license:l-1'',
      GrantedLicense.ProductSKU = sku,
      Issuer = Some \<lparr>IssuerDetails.KeyFingerprint = Some ''aws:123:issuer:fp''\<rparr>,
      GrantedLicense.Entitlements = [\<lparr>Entitlement.Name = Some ''USERS'', MaxCount = Some 7\<rparr>,
         \<lparr>Entitlement.Name = Some ''RKE_NODE_SUPP'', MaxCount = Some m\<rparr>]\<rparr>"

definition usage_of :: "(string option \<times> string option) list \<Rightarrow> GetLicenseUsageOutput" where
  "usage_of records =
     \<lparr>LicenseUsage = Some \<lparr>EntitlementUsages =
        map (\<lambda>(n, v). \<lparr>EntitlementUsage.Name = n, ConsumedValue = v\<rparr>) records\<rparr>\<rparr>"

section \<open>Facts about sending a request\<close>

lemma send_calls: "lm_calls (snd (send call m w)) = lm_calls w @ [call]"
  by (simp add: send_def split_beta)

lemma send_uuid: "uuid_rand (snd (send call m w)) = uuid_rand w" "uuid_drawn (snd (send call m w)) = uuid_drawn w"
  by (simp_all add: send_def split_beta)

lemma send_answer: "fst (send call m w) = fst (m (remote w))"
  by (simp add: send_def split_beta)

lemma send_remote: "remote (snd (send call m w)) = snd (m (remote w))"
  by (simp add: send_def split_beta)

lemma lookup_call_eq:
  "ListReceivedLicensesCall
       \<lparr>Filters = [\<lparr>Filter.Name = Some productSKUField, Values = [sku]\<rparr>],
        MaxResults = Some maxResults\<rparr> = lookup_call sku"
  by (simp add: lookup_call_def productSKUField_def maxResults_def)

lemma getLicenseForProductID_client: "fst (snd (getLicenseForProductID c sku w)) = c"
  by (simp add: getLicenseForProductID_def Let_def split_beta split: sum.splits list.splits option.splits)

lemma getLicenseForProductID_world:
  "snd (snd (getLicenseForProductID c sku w)) =
     snd (send (lookup_call sku) (ListReceivedLicenses (lm c)
        \<lparr>Filters = [\<lparr>Filter.Name = Some ''ProductSKU'', Values = [sku]\<rparr>],
        MaxResults = Some 1\<rparr>) w)"
  by (simp add: getLicenseForProductID_def Let_def split_beta lookup_call_def productSKUField_def maxResults_def split: sum.splits list.splits option.splits)

lemma getLicenseForProductID_calls:
  "lm_calls (snd (snd (getLicenseForProductID c sku w))) = lm_calls w @ [lookup_call sku]"
  by (simp add: getLicenseForProductID_world send_calls)

lemma getLicenseForProductID_uuid:
  "uuid_rand (snd (snd (getLicenseForProductID c sku w))) = uuid_rand w"
  "uuid_drawn (snd (snd (getLicenseForProductID c sku w))) = uuid_drawn w"
  by (simp_all add: getLicenseForProductID_world send_uuid)

lemma GetRancherLicense_client: "fst (snd (GetRancherLicense c w)) = c"
  using getLicenseForProductID_client[of c rancherProductSKUNonEmea w]
        getLicenseForProductID_client[of c rancherProductSKUEmea "snd (snd (getLicenseForProductID c rancherProductSKUNonEmea w))"]
  by (auto simp add: GetRancherLicense_def split: prod.splits option.splits)

lemmas stub_defs = stub_lm_def stub_client_def stub_sts_def world0_def send_def
  productSKUField_def maxResults_def rancherProductSKUNonEmea_def rancherProductSKUEmea_def

section \<open>The license lookup\<close>

text \<open>
  Claim C2. For every product SKU, the lookup \<^verbatim>\<open>getLicenseForProductID\<close> sends exactly
  one request, a \<^verbatim>\<open>ListReceivedLicenses\<close> whose only filter has the name
  \<^verbatim>\<open>ProductSKU\<close> and the queried SKU as its only value, with \<^verbatim>\<open>MaxResults\<close> 1. When
  the service answers with an empty list of licenses, the lookup fails with the error
  \<^verbatim>\<open>unable to find license for product id <sku>\<close>; otherwise it returns the first
  license of the list, with its \<^verbatim>\<open>ProductSKU\<close> set to the queried SKU when the vendor
  left it out and untouched when the vendor gave one.
\<close>

theorem getLicenseForProductID_request_and_result:
  "lm_calls (snd (snd (getLicenseForProductID c sku w))) =
     lm_calls w @
     [ListReceivedLicensesCall
        \<lparr>Filters = [\<lparr>Filter.Name = Some ''ProductSKU'', Values = [sku]\<rparr>],
         MaxResults = Some 1\<rparr>]
   \<and> (\<forall>res s'.
        ListReceivedLicenses (lm c)
          \<lparr>Filters = [\<lparr>Filter.Name = Some ''ProductSKU'', Values = [sku]\<rparr>],
           MaxResults = Some 1\<rparr> (remote w) = (Inr res, s') \<longrightarrow>
        (Licenses res = [] \<longrightarrow>
           fst (getLicenseForProductID c sku w) =
             (None, Some (errorString (''unable to find license for product id '' @ sku))))
        \<and> (\<forall>license rest. Licenses res = license # rest \<longrightarrow>
             fst (getLicenseForProductID c sku w) =
               (Some (license\<lparr>GrantedLicense.ProductSKU :=
                   Some (case GrantedLicense.ProductSKU license of
                           None \<Rightarrow> sku | Some v \<Rightarrow> v)\<rparr>), None)))"
proof (intro conjI allI impI)
  show "lm_calls (snd (snd (getLicenseForProductID c sku w))) =
     lm_calls w @
     [ListReceivedLicensesCall
        \<lparr>Filters = [\<lparr>Filter.Name = Some ''ProductSKU'', Values = [sku]\<rparr>],
         MaxResults = Some 1\<rparr>]"
    by (simp add: getLicenseForProductID_calls lookup_call_def)
next
  fix res s'
  assume a: "ListReceivedLicenses (lm c)
          \<lparr>Filters = [\<lparr>Filter.Name = Some ''ProductSKU'', Values = [sku]\<rparr>],
           MaxResults = Some 1\<rparr> (remote w) = (Inr res, s')"
  { assume "Licenses res = []"
    with a show "fst (getLicenseForProductID c sku w) =
             (None, Some (errorString (''unable to find license for product id '' @ sku)))"
      by (simp add: getLicenseForProductID_def productSKUField_def maxResults_def send_def) }
  { fix license rest assume "Licenses res = license # rest"
    with a show "fst (getLicenseForProductID c sku w) =
               (Some (license\<lparr>GrantedLicense.ProductSKU :=
                   Some (case GrantedLicense.ProductSKU license of
                           None \<Rightarrow> sku | Some v \<Rightarrow> v)\<rparr>), None)"
      by (simp add: getLicenseForProductID_def productSKUField_def maxResults_def send_def split: option.splits) }
qed

theorem getLicenseForProductID_request_and_result_witness:
  "lm_calls (snd (snd (getLicenseForProductID
      (stub_client (stub_lm (\<lambda>sku. Inr [rke_license None 100, rke_license (Some ''other'') 5])
         (Inl (errorString ''none'')) (Inl (errorString ''none''))))
      ''0b87d4fa-d1fe-41d8-830b-67d4ec381549'' world0))) =
     [ListReceivedLicensesCall
        \<lparr>Filters = [\<lparr>Filter.Name = Some ''ProductSKU'',
                      Values = [''0b87d4fa-d1fe-41d8-830b-67d4ec381549'']\<rparr>],
         MaxResults = Some 1\<rparr>]
   \<and> fst (getLicenseForProductID
      (stub_client (stub_lm (\<lambda>sku. Inr [rke_license None 100, rke_license (Some ''other'') 5])
         (Inl (errorString ''none'')) (Inl (errorString ''none''))))
      ''0b87d4fa-d1fe-41d8-830b-67d4ec381549'' world0) =
     (Some (rke_license (Some ''0b87d4fa-d1fe-41d8-830b-67d4ec381549'') 100), None)
   \<and> fst (getLicenseForProductID
      (stub_client (stub_lm (\<lambda>sku. Inr [rke_license (Some ''other'') 5])
         (Inl (errorString ''none'')) (Inl (errorString ''none''))))
      ''0b87d4fa-d1fe-41d8-830b-67d4ec381549'' world0) =
     (Some (rke_license (Some ''other'') 5), None)
   \<and> fst (getLicenseForProductID
      (stub_client (stub_lm (\<lambda>sku. Inr [])
         (Inl (errorString ''none'')) (Inl (errorString ''none''))))
      ''0b87d4fa-d1fe-41d8-830b-67d4ec381549'' world0) =
     (None, Some (errorString
        ''unable to find license for product id 0b87d4fa-d1fe-41d8-830b-67d4ec381549''))"
proof (intro conjI)
  let ?sku = "''0b87d4fa-d1fe-41d8-830b-67d4ec381549''"
  let ?q = "\<lparr>Filters = [\<lparr>Filter.Name = Some ''ProductSKU'', Values = [?sku]\<rparr>],
            MaxResults = Some 1\<rparr>"
  let ?c = "stub_client (stub_lm
              (\<lambda>sku. Inr [rke_license None 100, rke_license (Some ''other'') 5])
              (Inl (errorString ''none'')) (Inl (errorString ''none'')))"
  have answer: "ListReceivedLicenses (lm ?c) ?q (remote world0) =
      (Inr \<lparr>Licenses = [rke_license None 100, rke_license (Some ''other'') 5]\<rparr>, 1)"
    by (simp add: stub_defs)
  have filled: "(rke_license None 100)\<lparr>GrantedLicense.ProductSKU := Some ?sku\<rparr> =
      rke_license (Some ?sku) 100"
    by (simp add: rke_license_def)
  show "lm_calls (snd (snd (getLicenseForProductID ?c ?sku world0))) = [ListReceivedLicensesCall ?q]"
    using getLicenseForProductID_request_and_result[of ?c ?sku world0]
    by (simp add: world0_def)
  show "fst (getLicenseForProductID ?c ?sku world0) = (Some (rke_license (Some ?sku) 100), None)"
    using getLicenseForProductID_request_and_result[of ?c ?sku world0] answer filled
    by (simp add: rke_license_def)
next
  let ?sku = "''0b87d4fa-d1fe-41d8-830b-67d4ec381549''"
  let ?q = "\<lparr>Filters = [\<lparr>Filter.Name = Some ''ProductSKU'', Values = [?sku]\<rparr>],
            MaxResults = Some 1\<rparr>"
  let ?c = "stub_client (stub_lm (\<lambda>sku. Inr [rke_license (Some ''other'') 5])
              (Inl (errorString ''none'')) (Inl (errorString ''none'')))"
  have answer: "ListReceivedLicenses (lm ?c) ?q (remote world0) =
      (Inr \<lparr>Licenses = [rke_license (Some ''other'') 5]\<rparr>, 1)"
    by (simp add: stub_defs)
  show "fst (getLicenseForProductID ?c ?sku world0) = (Some (rke_license (Some ''other'') 5), None)"
    using getLicenseForProductID_request_and_result[of ?c ?sku world0] answer
    by (simp add: rke_license_def)
next
  let ?sku = "''0b87d4fa-d1fe-41d8-830b-67d4ec381549''"
  let ?q = "\<lparr>Filters = [\<lparr>Filter.Name = Some ''ProductSKU'', Values = [?sku]\<rparr>],
            MaxResults = Some 1\<rparr>"
  let ?c = "stub_client (stub_lm (\<lambda>sku. Inr [])
              (Inl (errorString ''none'')) (Inl (errorString ''none'')))"
  have answer: "ListReceivedLicenses (lm ?c) ?q (remote world0) = (Inr \<lparr>Licenses = []\<rparr>, 1)"
    by (simp add: stub_defs)
  show "fst (getLicenseForProductID ?c ?sku world0) =
     (None, Some (errorString
        ''unable to find license for product id 0b87d4fa-d1fe-41d8-830b-67d4ec381549''))"
    using getLicenseForProductID_request_and_result[of ?c ?sku world0] answer
    by simp
qed

text \<open>
  Claim C1. \<^verbatim>\<open>GetRancherLicense\<close> looks the non-EMEA SKU up first. When that lookup
  returns no error, its result is the result and no other request is sent. When it
  returns any error, the EMEA SKU is looked up next, so that the two requests are sent in
  this order; a license found then is returned, and when the second lookup fails too,
  the result is one error whose text contains the texts of both errors.
\<close>

theorem GetRancherLicense_fallback:
  assumes first: "getLicenseForProductID c rancherProductSKUNonEmea w = ((l1, e1), c1, w1)"
      and second: "getLicenseForProductID c1 rancherProductSKUEmea w1 = ((l2, e2), c2, w2)"
  shows "(e1 = None \<longrightarrow>
            GetRancherLicense c w = ((l1, None), c1, w1)
            \<and> lm_calls w1 = lm_calls w @ [lookup_call ''0b87d4fa-d1fe-41d8-830b-67d4ec381549''])
       \<and> (e1 \<noteq> None \<longrightarrow>
            snd (GetRancherLicense c w) = (c2, w2)
            \<and> lm_calls w2 = lm_calls w @ [lookup_call ''0b87d4fa-d1fe-41d8-830b-67d4ec381549'',
                                           lookup_call ''a303097d-1dc2-4548-8ea6-f46bb9842e21'']
            \<and> (e2 = None \<longrightarrow> fst (GetRancherLicense c w) = (l2, None))
            \<and> (e2 \<noteq> None \<longrightarrow>
                 (\<exists>msg. fst (GetRancherLicense c w) = (None, Some (errorString msg))
                        \<and> sublist (Error (the e1)) msg \<and> sublist (Error (the e2)) msg)))"
proof -
  have w1: "lm_calls w1 = lm_calls w @ [lookup_call ''0b87d4fa-d1fe-41d8-830b-67d4ec381549'']"
    using getLicenseForProductID_calls[of c rancherProductSKUNonEmea w] first
    by (simp add: rancherProductSKUNonEmea_def)
  have w2: "lm_calls w2 = lm_calls w1 @ [lookup_call ''a303097d-1dc2-4548-8ea6-f46bb9842e21'']"
    using getLicenseForProductID_calls[of c1 rancherProductSKUEmea w1] second
    by (simp add: rancherProductSKUEmea_def)
  have ok: "e1 = None \<Longrightarrow> GetRancherLicense c w = ((l1, None), c1, w1)"
    using first by (simp add: GetRancherLicense_def)
  have retry: "e1 \<noteq> None \<Longrightarrow> snd (GetRancherLicense c w) = (c2, w2)"
    using first second by (auto simp add: GetRancherLicense_def split: option.splits)
  have found: "e1 \<noteq> None \<Longrightarrow> e2 = None \<Longrightarrow> fst (GetRancherLicense c w) = (l2, None)"
    using first second by (auto simp add: GetRancherLicense_def split: option.splits)
  have both: "\<exists>msg. fst (GetRancherLicense c w) = (None, Some (errorString msg))
                        \<and> sublist (Error (the e1)) msg \<and> sublist (Error (the e2)) msg"
    if "e1 \<noteq> None" "e2 \<noteq> None"
  proof -
    from that obtain err newErr where e: "e1 = Some err" "e2 = Some newErr" by auto
    let ?msg = "''unable to get license for non-emea: '' @ Error err @
                    '', unable to get license for emea: '' @ Error newErr"
    have "fst (GetRancherLicense c w) = (None, Some (errorString ?msg))"
      using first second e by (simp add: GetRancherLicense_def)
    moreover have "sublist (Error err) ?msg"
      by (rule sublist_appendI)
    moreover have "sublist (Error newErr) ?msg"
      unfolding sublist_def by (rule exI[of _ "''unable to get license for non-emea: '' @ Error err @
                    '', unable to get license for emea: ''"], rule exI[of _ "[]"]) simp
    ultimately show ?thesis using e by auto
  qed
  show ?thesis using w1 w2 ok retry found both by simp
qed

theorem GetRancherLicense_fallback_witness:
  "fst (GetRancherLicense
          (stub_client (stub_lm (\<lambda>sku. if sku = ''a303097d-1dc2-4548-8ea6-f46bb9842e21''
                                   then Inr [rke_license None 50] else Inr [])
             (Inl (errorString ''none'')) (Inl (errorString ''none'')))) world0)
     = (Some (rke_license (Some ''a303097d-1dc2-4548-8ea6-f46bb9842e21'') 50), None)
   \<and> (\<exists>msg. fst (GetRancherLicense
          (stub_client (stub_lm (\<lambda>sku. Inr [])
             (Inl (errorString ''none'')) (Inl (errorString ''none'')))) world0)
         = (None, Some (errorString msg))
       \<and> sublist ''unable to find license for product id 0b87d4fa-d1fe-41d8-830b-67d4ec381549'' msg
       \<and> sublist ''unable to find license for product id a303097d-1dc2-4548-8ea6-f46bb9842e21'' msg)
   \<and> GetRancherLicense
          (stub_client (stub_lm (\<lambda>sku. Inr [rke_license (Some sku) 100])
             (Inl (errorString ''none'')) (Inl (errorString ''none'')))) world0
     = ((Some (rke_license (Some ''0b87d4fa-d1fe-41d8-830b-67d4ec381549'') 100), None),
        stub_client (stub_lm (\<lambda>sku. Inr [rke_license (Some sku) 100])
             (Inl (errorString ''none'')) (Inl (errorString ''none''))),
        world0\<lparr>remote := 1,
          lm_calls := [lookup_call ''0b87d4fa-d1fe-41d8-830b-67d4ec381549'']\<rparr>)"
proof (intro conjI)
  let ?tb = "\<lambda>sku. if sku = ''a303097d-1dc2-4548-8ea6-f46bb9842e21''
                                   then Inr [rke_license None 50] else Inr []"
  let ?cb = "stub_client (stub_lm ?tb (Inl (errorString ''none'')) (Inl (errorString ''none'')))"
  let ?q1 = "lookup_call ''0b87d4fa-d1fe-41d8-830b-67d4ec381549''"
  let ?q2 = "lookup_call ''a303097d-1dc2-4548-8ea6-f46bb9842e21''"
  let ?e1 = "errorString ''unable to find license for product id 0b87d4fa-d1fe-41d8-830b-67d4ec381549''"
  let ?e2 = "errorString ''unable to find license for product id a303097d-1dc2-4548-8ea6-f46bb9842e21''"
  have b1: "getLicenseForProductID ?cb rancherProductSKUNonEmea world0 =
          ((None, Some ?e1), ?cb, world0\<lparr>remote := 1, lm_calls := [?q1]\<rparr>)"
    by (simp add: getLicenseForProductID_def stub_defs lookup_call_def)
  have b2: "getLicenseForProductID ?cb rancherProductSKUEmea (world0\<lparr>remote := 1, lm_calls := [?q1]\<rparr>) =
          ((Some (rke_license (Some ''a303097d-1dc2-4548-8ea6-f46bb9842e21'') 50), None), ?cb,
            world0\<lparr>remote := 2, lm_calls := [?q1, ?q2]\<rparr>)"
    by (simp add: getLicenseForProductID_def stub_defs lookup_call_def rke_license_def)
  show "fst (GetRancherLicense ?cb world0)
     = (Some (rke_license (Some ''a303097d-1dc2-4548-8ea6-f46bb9842e21'') 50), None)"
    using GetRancherLicense_fallback[OF b1 b2] by simp
next
  let ?cc = "stub_client (stub_lm (\<lambda>sku. Inr [])
             (Inl (errorString ''none'')) (Inl (errorString ''none'')))"
  let ?q1 = "lookup_call ''0b87d4fa-d1fe-41d8-830b-67d4ec381549''"
  let ?q2 = "lookup_call ''a303097d-1dc2-4548-8ea6-f46bb9842e21''"
  let ?e1 = "errorString ''unable to find license for product id 0b87d4fa-d1fe-41d8-830b-67d4ec381549''"
  let ?e2 = "errorString ''unable to find license for product id a303097d-1dc2-4548-8ea6-f46bb9842e21''"
  have c1: "getLicenseForProductID ?cc rancherProductSKUNonEmea world0 =
          ((None, Some ?e1), ?cc, world0\<lparr>remote := 1, lm_calls := [?q1]\<rparr>)"
    by (simp add: getLicenseForProductID_def stub_defs lookup_call_def)
  have c2: "getLicenseForProductID ?cc rancherProductSKUEmea (world0\<lparr>remote := 1, lm_calls := [?q1]\<rparr>) =
          ((None, Some ?e2), ?cc, world0\<lparr>remote := 2, lm_calls := [?q1, ?q2]\<rparr>)"
    by (simp add: getLicenseForProductID_def stub_defs lookup_call_def)
  show "\<exists>msg. fst (GetRancherLicense ?cc world0) = (None, Some (errorString msg))
       \<and> sublist ''unable to find license for product id 0b87d4fa-d1fe-41d8-830b-67d4ec381549'' msg
       \<and> sublist ''unable to find license for product id a303097d-1dc2-4548-8ea6-f46bb9842e21'' msg"
    using GetRancherLicense_fallback[OF c1 c2] by simp
next
  let ?ca = "stub_client (stub_lm (\<lambda>sku. Inr [rke_license (Some sku) 100])
             (Inl (errorString ''none'')) (Inl (errorString ''none'')))"
  let ?q1 = "lookup_call ''0b87d4fa-d1fe-41d8-830b-67d4ec381549''"
  let ?q2 = "lookup_call ''a303097d-1dc2-4548-8ea6-f46bb9842e21''"
  have a1: "getLicenseForProductID ?ca rancherProductSKUNonEmea world0 =
          ((Some (rke_license (Some ''0b87d4fa-d1fe-41d8-830b-67d4ec381549'') 100), None), ?ca,
           world0\<lparr>remote := 1, lm_calls := [?q1]\<rparr>)"
    by (simp add: getLicenseForProductID_def stub_defs lookup_call_def rke_license_def)
  have a2: "getLicenseForProductID ?ca rancherProductSKUEmea (world0\<lparr>remote := 1, lm_calls := [?q1]\<rparr>) =
          ((Some (rke_license (Some ''a303097d-1dc2-4548-8ea6-f46bb9842e21'') 100), None), ?ca,
           world0\<lparr>remote := 2, lm_calls := [?q1, ?q2]\<rparr>)"
    by (simp add: getLicenseForProductID_def stub_defs lookup_call_def rke_license_def)
  show "GetRancherLicense ?ca world0
     = ((Some (rke_license (Some ''0b87d4fa-d1fe-41d8-830b-67d4ec381549'') 100), None), ?ca,
        world0\<lparr>remote := 1, lm_calls := [?q1]\<rparr>)"
    using GetRancherLicense_fallback[OF a1 a2] by simp
qed

section \<open>Construction of the client\<close>

lemma getAccountNumber_client: "fst (snd (getAccountNumber c w)) = c"
  by (simp add: getAccountNumber_def split_beta split: sum.splits option.splits)

text \<open>
  Claim C7. \<^verbatim>\<open>NewClient\<close> returns no client exactly when loading the configuration
  fails, or the identity lookup fails, or the account of the identity response is absent
  or the empty string; no client comes with an error. A client that is returned comes
  without error, and its \<^verbatim>\<open>AccountNumber()\<close> is the account of the identity response,
  character for character.
\<close>

theorem NewClient_fails_exactly_when:
  assumes load: "LoadDefaultConfig sdk (remote w) = (loaded, s1)"
      and ident: "\<forall>cfg. loaded = Inr cfg \<longrightarrow>
                    GetCallerIdentity (sts_NewFromConfig sdk cfg) () s1 = (identity, s2)"
  shows "(fst (fst (NewClient sdk w)) = None) =
           (isl loaded \<or> isl identity \<or>
            (\<exists>out. identity = Inr out \<and> (Account out = None \<or> Account out = Some [])))
       \<and> (fst (fst (NewClient sdk w)) = None \<longrightarrow> snd (fst (NewClient sdk w)) \<noteq> None)
       \<and> (\<forall>c. fst (fst (NewClient sdk w)) = Some c \<longrightarrow>
             snd (fst (NewClient sdk w)) = None
             \<and> (\<exists>out. identity = Inr out
                  \<and> Account out = Some (fst (AccountNumber c (snd (NewClient sdk w))))))"
proof (cases loaded)
  case (Inl e)
  with load show ?thesis by (simp add: NewClient_def)
next
  case (Inr cfg)
  with ident have id: "GetCallerIdentity (sts_NewFromConfig sdk cfg) () s1 = (identity, s2)"
    by simp
  show ?thesis
  proof (cases identity)
    case (Inl e)
    with load Inr id show ?thesis
      by (simp add: NewClient_def getAccountNumber_def)
  next
    case out: (Inr out)
    show ?thesis
    proof (cases "Account out")
      case None
      with load Inr id out show ?thesis
        by (simp add: NewClient_def getAccountNumber_def)
    next
      case (Some a)
      with load Inr id out show ?thesis
        by (cases a) (simp_all add: NewClient_def getAccountNumber_def AccountNumber_def)
    qed
  qed
qed

theorem NewClient_fails_exactly_when_witness:
  "(\<exists>c. fst (NewClient (stub_sdk (Inr ()) (Inr \<lparr>Account = Some ''123456789012''\<rparr>)) world0)
          = (Some c, None)
        \<and> fst (AccountNumber c world0) = ''123456789012'')
   \<and> fst (fst (NewClient (stub_sdk (Inr ()) (Inr \<lparr>Account = Some ''''\<rparr>)) world0)) = None
   \<and> fst (fst (NewClient (stub_sdk (Inr ()) (Inr \<lparr>Account = None\<rparr>)) world0)) = None
   \<and> fst (fst (NewClient (stub_sdk (Inr ()) (Inl (errorString ''ExpiredToken''))) world0)) = None
   \<and> fst (fst (NewClient (stub_sdk (Inl (errorString ''no credentials''))
                            (Inr \<lparr>Account = Some ''123456789012''\<rparr>)) world0)) = None"
proof (intro conjI)
  let ?id = "Inr \<lparr>Account = Some ''123456789012''\<rparr> :: error + GetCallerIdentityOutput"
  let ?sdk = "stub_sdk (Inr ()) ?id"
  have load: "LoadDefaultConfig ?sdk (remote world0) = (Inr (), 0)"
    by (simp add: stub_sdk_def world0_def)
  have ident: "\<forall>cfg. (Inr () :: error + unit) = Inr cfg \<longrightarrow>
      GetCallerIdentity (sts_NewFromConfig ?sdk cfg) () 0 = (?id, 1)"
    by (simp add: stub_sdk_def stub_sts_def)
  note fact = NewClient_fails_exactly_when[OF load ident]
  from fact have some: "fst (fst (NewClient ?sdk world0)) \<noteq> None" by simp
  then obtain c where c: "fst (fst (NewClient ?sdk world0)) = Some c" by auto
  with fact have "snd (fst (NewClient ?sdk world0)) = None"
    and "Some ''123456789012'' = Some (fst (AccountNumber c (snd (NewClient ?sdk world0))))"
    by auto
  with c have "fst (NewClient ?sdk world0) = (Some c, None)"
    and "fst (AccountNumber c world0) = ''123456789012''"
    by (auto simp add: prod_eq_iff AccountNumber_def)
  then show "\<exists>c. fst (NewClient ?sdk world0) = (Some c, None)
        \<and> fst (AccountNumber c world0) = ''123456789012''" by blast
next
  let ?id = "Inr \<lparr>Account = Some ''''\<rparr> :: error + GetCallerIdentityOutput"
  let ?sdk = "stub_sdk (Inr ()) ?id"
  have load: "LoadDefaultConfig ?sdk (remote world0) = (Inr (), 0)"
    by (simp add: stub_sdk_def world0_def)
  have ident: "\<forall>cfg. (Inr () :: error + unit) = Inr cfg \<longrightarrow>
      GetCallerIdentity (sts_NewFromConfig ?sdk cfg) () 0 = (?id, 1)"
    by (simp add: stub_sdk_def stub_sts_def)
  show "fst (fst (NewClient ?sdk world0)) = None"
    using NewClient_fails_exactly_when[OF load ident] by simp
next
  let ?id = "Inr \<lparr>Account = None\<rparr> :: error + GetCallerIdentityOutput"
  let ?sdk = "stub_sdk (Inr ()) ?id"
  have load: "LoadDefaultConfig ?sdk (remote world0) = (Inr (), 0)"
    by (simp add: stub_sdk_def world0_def)
  have ident: "\<forall>cfg. (Inr () :: error + unit) = Inr cfg \<longrightarrow>
      GetCallerIdentity (sts_NewFromConfig ?sdk cfg) () 0 = (?id, 1)"
    by (simp add: stub_sdk_def stub_sts_def)
  show "fst (fst (NewClient ?sdk world0)) = None"
    using NewClient_fails_exactly_when[OF load ident] by simp
next
  let ?id = "Inl (errorString ''ExpiredToken'') :: error + GetCallerIdentityOutput"
  let ?sdk = "stub_sdk (Inr ()) ?id"
  have load: "LoadDefaultConfig ?sdk (remote world0) = (Inr (), 0)"
    by (simp add: stub_sdk_def world0_def)
  have ident: "\<forall>cfg. (Inr () :: error + unit) = Inr cfg \<longrightarrow>
      GetCallerIdentity (sts_NewFromConfig ?sdk cfg) () 0 = (?id, 1)"
    by (simp add: stub_sdk_def stub_sts_def)
  show "fst (fst (NewClient ?sdk world0)) = None"
    using NewClient_fails_exactly_when[OF load ident] by simp
next
  let ?id = "Inr \<lparr>Account = Some ''123456789012''\<rparr> :: error + GetCallerIdentityOutput"
  let ?sdk = "stub_sdk (Inl (errorString ''no credentials'')) ?id"
  have load: "LoadDefaultConfig ?sdk (remote world0) = (Inl (errorString ''no credentials''), 0)"
    by (simp add: stub_sdk_def world0_def)
  have ident: "\<forall>cfg. (Inl (errorString ''no credentials'') :: error + unit) = Inr cfg \<longrightarrow>
      GetCallerIdentity (sts_NewFromConfig ?sdk cfg) () 0 = (?id, 1)"
    by simp
  show "fst (fst (NewClient ?sdk world0)) = None"
    using NewClient_fails_exactly_when[OF load ident] by simp
qed

section \<open>Checking a license out\<close>

text \<open>
  Claim C4. When the license has no issuer, or its issuer has no key fingerprint,
  \<^verbatim>\<open>CheckoutRancherLicense\<close> fails and leaves the world as it was: no request is sent
  and no UUID is drawn. Without an ARN the error reads
  \<^verbatim>\<open>license is missing arn and KeyFingerprint/Issuer\<close>, with an ARN it reads
  \<^verbatim>\<open>license <arn> must have a KeyFingerprint for checkout\<close>, and no ARN makes the
  second text equal to the first.
\<close>

theorem CheckoutRancherLicense_missing_fingerprint:
  assumes "Issuer l = None \<or> (\<exists>iss. Issuer l = Some iss \<and> IssuerDetails.KeyFingerprint iss = None)"
  shows "CheckoutRancherLicense c l n w =
           ((None, Some (errorString
               (case GrantedLicense.LicenseArn l of
                  None \<Rightarrow> ''license is missing arn and KeyFingerprint/Issuer''
                | Some arn \<Rightarrow> ''license '' @ arn @ '' must have a KeyFingerprint for checkout''))),
            c, w)
       \<and> (\<forall>arn. ''license is missing arn and KeyFingerprint/Issuer'' \<noteq>
                 ''license '' @ arn @ '' must have a KeyFingerprint for checkout'')"
proof
  from assms show "CheckoutRancherLicense c l n w =
           ((None, Some (errorString
               (case GrantedLicense.LicenseArn l of
                  None \<Rightarrow> ''license is missing arn and KeyFingerprint/Issuer''
                | Some arn \<Rightarrow> ''license '' @ arn @ '' must have a KeyFingerprint for checkout''))),
            c, w)"
    by (auto simp add: CheckoutRancherLicense_def split: option.splits)
next
  show "\<forall>arn. ''license is missing arn and KeyFingerprint/Issuer'' \<noteq>
                 ''license '' @ arn @ '' must have a KeyFingerprint for checkout''"
  proof (intro allI notI)
    fix arn :: string
    assume "''license is missing arn and KeyFingerprint/Issuer'' =
                 ''license '' @ arn @ '' must have a KeyFingerprint for checkout''"
    then have "last ''license is missing arn and KeyFingerprint/Issuer'' =
                 last (''license '' @ arn @ '' must have a KeyFingerprint for checkout'')"
      by (rule arg_cong)
    then show False by simp
  qed
qed

theorem CheckoutRancherLicense_missing_fingerprint_witness:
  "CheckoutRancherLicense (stub_client (stub_lm (\<lambda>_. Inr []) (Inr \<lparr>CheckoutLicenseOutput.LicenseConsumptionToken = Some ''t'', Expiration = None\<rparr>) (Inl (errorString ''none''))))
     ((rke_license None 5)\<lparr>Issuer := None, GrantedLicense.LicenseArn := None\<rparr>) 3 world0
   = ((None, Some (errorString ''license is missing arn and KeyFingerprint/Issuer'')),
      stub_client (stub_lm (\<lambda>_. Inr []) (Inr \<lparr>CheckoutLicenseOutput.LicenseConsumptionToken = Some ''t'', Expiration = None\<rparr>) (Inl (errorString ''none''))), world0)
   \<and> CheckoutRancherLicense (stub_client (stub_lm (\<lambda>_. Inr []) (Inr \<lparr>CheckoutLicenseOutput.LicenseConsumptionToken = Some ''t'', Expiration = None\<rparr>) (Inl (errorString ''none''))))
     ((rke_license None 5)\<lparr>Issuer := Some \<lparr>IssuerDetails.KeyFingerprint = None\<rparr>\<rparr>) 3 world0
   = ((None, Some (errorString ''license arn:aws:license-manager::123456789012:license:l-1 must have a KeyFingerprint for checkout'')),
      stub_client (stub_lm (\<lambda>_. Inr []) (Inr \<lparr>CheckoutLicenseOutput.LicenseConsumptionToken = Some ''t'', Expiration = None\<rparr>) (Inl (errorString ''none''))), world0)"
proof (intro conjI)
  let ?l = "(rke_license None 5)\<lparr>Issuer := None, GrantedLicense.LicenseArn := None\<rparr>"
  have h: "Issuer ?l = None \<or> (\<exists>iss. Issuer ?l = Some iss \<and> IssuerDetails.KeyFingerprint iss = None)"
    by simp
  show "CheckoutRancherLicense (stub_client (stub_lm (\<lambda>_. Inr []) (Inr \<lparr>CheckoutLicenseOutput.LicenseConsumptionToken = Some ''t'', Expiration = None\<rparr>) (Inl (errorString ''none'')))) ?l 3 world0
   = ((None, Some (errorString ''license is missing arn and KeyFingerprint/Issuer'')),
      stub_client (stub_lm (\<lambda>_. Inr []) (Inr \<lparr>CheckoutLicenseOutput.LicenseConsumptionToken = Some ''t'', Expiration = None\<rparr>) (Inl (errorString ''none''))), world0)"
    using CheckoutRancherLicense_missing_fingerprint[OF h] by simp
next
  let ?l = "(rke_license None 5)\<lparr>Issuer := Some \<lparr>IssuerDetails.KeyFingerprint = None\<rparr>\<rparr>"
  have h: "Issuer ?l = None \<or> (\<exists>iss. Issuer ?l = Some iss \<and> IssuerDetails.KeyFingerprint iss = None)"
    by simp
  show "CheckoutRancherLicense (stub_client (stub_lm (\<lambda>_. Inr []) (Inr \<lparr>CheckoutLicenseOutput.LicenseConsumptionToken = Some ''t'', Expiration = None\<rparr>) (Inl (errorString ''none'')))) ?l 3 world0
   = ((None, Some (errorString ''license arn:aws:license-manager::123456789012:license:l-1 must have a KeyFingerprint for checkout'')),
      stub_client (stub_lm (\<lambda>_. Inr []) (Inr \<lparr>CheckoutLicenseOutput.LicenseConsumptionToken = Some ''t'', Expiration = None\<rparr>) (Inl (errorString ''none''))), world0)"
    using CheckoutRancherLicense_missing_fingerprint[OF h] by (simp add: rke_license_def)
qed

section \<open>The license returned by the lookup carries a product SKU\<close>

lemma getLicenseForProductID_found:
  assumes "getLicenseForProductID c sku w = ((lic, None), c', w')"
  shows "\<exists>res s' vendor rest.
           ListReceivedLicenses (lm c)
             \<lparr>Filters = [\<lparr>Filter.Name = Some ''ProductSKU'', Values = [sku]\<rparr>],
              MaxResults = Some 1\<rparr> (remote w) = (Inr res, s')
           \<and> Licenses res = vendor # rest
           \<and> lic = Some (vendor\<lparr>GrantedLicense.ProductSKU :=
                   Some (case GrantedLicense.ProductSKU vendor of None \<Rightarrow> sku | Some v \<Rightarrow> v)\<rparr>)"
proof -
  obtain r s' where answer: "ListReceivedLicenses (lm c)
             \<lparr>Filters = [\<lparr>Filter.Name = Some ''ProductSKU'', Values = [sku]\<rparr>],
              MaxResults = Some 1\<rparr> (remote w) = (r, s')"
    by (metis prod.exhaust)
  show ?thesis
  proof (cases r)
    case (Inl e)
    with assms answer show ?thesis
      by (simp add: getLicenseForProductID_def productSKUField_def maxResults_def send_def)
  next
    case (Inr res)
    with assms answer show ?thesis
      by (cases "Licenses res")
         (auto simp add: getLicenseForProductID_def productSKUField_def maxResults_def send_def
               split: option.splits)
  qed
qed

lemma CheckoutRancherLicense_client: "fst (snd (CheckoutRancherLicense c l n w)) = c"
  by (simp add: CheckoutRancherLicense_def Let_def split_beta split: sum.splits option.splits)

lemma CheckoutRancherLicense_request:
  assumes "Issuer l = Some iss" "IssuerDetails.KeyFingerprint iss = Some fp"
  shows "snd (snd (CheckoutRancherLicense c l n w)) =
     snd (send (CheckoutLicenseCall
            \<lparr>CheckoutType = CheckoutTypeProvisional,
             ClientToken = Some (uuid_rand w (uuid_drawn w)),
             ProductSKU = GrantedLicense.ProductSKU l,
             KeyFingerprint = Some fp,
             Entitlements = [\<lparr>EntitlementData.Name = Some ''RKE_NODE_SUPP'',
                              Unit = ''Count'', Value = Some (Sprintf_d n)\<rparr>]\<rparr>)
          (CheckoutLicense (lm c)
            \<lparr>CheckoutType = CheckoutTypeProvisional,
             ClientToken = Some (uuid_rand w (uuid_drawn w)),
             ProductSKU = GrantedLicense.ProductSKU l,
             KeyFingerprint = Some fp,
             Entitlements = [\<lparr>EntitlementData.Name = Some ''RKE_NODE_SUPP'',
                              Unit = ''Count'', Value = Some (Sprintf_d n)\<rparr>]\<rparr>)
          (w\<lparr>uuid_drawn := Suc (uuid_drawn w)\<rparr>))"
  using assms
  by (simp add: CheckoutRancherLicense_def Let_def split_beta uuid_New_def
      entitlementDimension_def entitlementUnit_def split: sum.splits)

lemma CheckoutRancherLicense_answer:
  assumes "Issuer l = Some iss" "IssuerDetails.KeyFingerprint iss = Some fp"
  shows "fst (CheckoutRancherLicense c l n w) =
     (case fst (CheckoutLicense (lm c)
            \<lparr>CheckoutType = CheckoutTypeProvisional,
             ClientToken = Some (uuid_rand w (uuid_drawn w)),
             ProductSKU = GrantedLicense.ProductSKU l,
             KeyFingerprint = Some fp,
             Entitlements = [\<lparr>EntitlementData.Name = Some ''RKE_NODE_SUPP'',
                              Unit = ''Count'', Value = Some (Sprintf_d n)\<rparr>]\<rparr> (remote w)) of
        Inl err \<Rightarrow> (None, Some err) | Inr res \<Rightarrow> (Some res, None))"
  using assms
  by (simp add: CheckoutRancherLicense_def Let_def split_beta uuid_New_def send_def
      entitlementDimension_def entitlementUnit_def split: sum.splits)

text \<open>
  Claim C10. When \<^verbatim>\<open>GetRancherLicense\<close> returns without error, it returns a license
  (the pointer is not nil) whose \<^verbatim>\<open>ProductSKU\<close> is present: it is the SKU of the
  first license that the vendor listed for one of the two regional SKUs, or, where the
  vendor left that field out, the regional SKU that was queried. A checkout request that
  \<^verbatim>\<open>CheckoutRancherLicense\<close> sends for this license therefore carries a product SKU.
\<close>

theorem GetRancherLicense_license_has_sku:
  assumes ok: "GetRancherLicense c w = ((lic, None), c', w')"
  shows "\<exists>l. lic = Some l
           \<and> GrantedLicense.ProductSKU l \<noteq> None
           \<and> (\<exists>sku s res s' vendor rest.
                 (sku = ''0b87d4fa-d1fe-41d8-830b-67d4ec381549''
                    \<or> sku = ''a303097d-1dc2-4548-8ea6-f46bb9842e21'')
                 \<and> ListReceivedLicenses (lm c)
                      \<lparr>Filters = [\<lparr>Filter.Name = Some ''ProductSKU'', Values = [sku]\<rparr>],
                       MaxResults = Some 1\<rparr> s = (Inr res, s')
                 \<and> Licenses res = vendor # rest
                 \<and> GrantedLicense.ProductSKU l =
                     Some (case GrantedLicense.ProductSKU vendor of None \<Rightarrow> sku | Some v \<Rightarrow> v))
           \<and> (\<forall>n w2 inp.
                 lm_calls (snd (snd (CheckoutRancherLicense c' l n w2))) =
                   lm_calls w2 @ [CheckoutLicenseCall inp]
                 \<longrightarrow> CheckoutLicenseInput.ProductSKU inp \<noteq> None)"
proof -
  obtain l1 e1 c1 w1 where first:
    "getLicenseForProductID c rancherProductSKUNonEmea w = ((l1, e1), c1, w1)"
    by (metis prod.exhaust)
  obtain l2 e2 c2 w2 where second:
    "getLicenseForProductID c1 rancherProductSKUEmea w1 = ((l2, e2), c2, w2)"
    by (metis prod.exhaust)
  have c1: "c1 = c"
    using getLicenseForProductID_client[of c rancherProductSKUNonEmea w] first by simp
  have "\<exists>sku s. (sku = rancherProductSKUNonEmea \<or> sku = rancherProductSKUEmea)
           \<and> (\<exists>cc ww. getLicenseForProductID c sku s = ((lic, None), cc, ww))"
  proof (cases e1)
    case None
    with first ok have "getLicenseForProductID c rancherProductSKUNonEmea w = ((lic, None), c1, w1)"
      by (simp add: GetRancherLicense_def)
    then show ?thesis by blast
  next
    case (Some err)
    with first second ok have "e2 = None \<and> l2 = lic"
      by (auto simp add: GetRancherLicense_def split: option.splits)
    with second c1 have "getLicenseForProductID c rancherProductSKUEmea w1 = ((lic, None), c2, w2)"
      by simp
    then show ?thesis by blast
  qed
  then obtain sku s cc ww where sku: "sku = rancherProductSKUNonEmea \<or> sku = rancherProductSKUEmea"
    and found: "getLicenseForProductID c sku s = ((lic, None), cc, ww)" by blast
  from getLicenseForProductID_found[OF found] obtain res s' vendor rest where
    answer: "ListReceivedLicenses (lm c)
             \<lparr>Filters = [\<lparr>Filter.Name = Some ''ProductSKU'', Values = [sku]\<rparr>],
              MaxResults = Some 1\<rparr> (remote s) = (Inr res, s')"
    and lic: "Licenses res = vendor # rest"
      "lic = Some (vendor\<lparr>GrantedLicense.ProductSKU :=
                   Some (case GrantedLicense.ProductSKU vendor of None \<Rightarrow> sku | Some v \<Rightarrow> v)\<rparr>)"
    by blast
  let ?l = "vendor\<lparr>GrantedLicense.ProductSKU :=
                   Some (case GrantedLicense.ProductSKU vendor of None \<Rightarrow> sku | Some v \<Rightarrow> v)\<rparr>"
  have present: "GrantedLicense.ProductSKU ?l \<noteq> None" by simp
  have sent: "CheckoutLicenseInput.ProductSKU inp \<noteq> None"
    if "lm_calls (snd (snd (CheckoutRancherLicense c' ?l n w2))) = lm_calls w2 @ [CheckoutLicenseCall inp]"
    for n w2 inp
  proof (cases "Issuer ?l = None \<or> IssuerDetails.KeyFingerprint (the (Issuer ?l)) = None")
    case True
    then have "snd (snd (CheckoutRancherLicense c' ?l n w2)) = w2"
      by (simp add: CheckoutRancherLicense_def split: option.splits)
    with that show ?thesis by simp
  next
    case False
    then obtain iss fp where "Issuer ?l = Some iss" "IssuerDetails.KeyFingerprint iss = Some fp"
      by auto
    note issuer = this
    let ?input = "\<lparr>CheckoutType = CheckoutTypeProvisional,
             ClientToken = Some (uuid_rand w2 (uuid_drawn w2)),
             ProductSKU = GrantedLicense.ProductSKU ?l,
             KeyFingerprint = Some fp,
             Entitlements = [\<lparr>EntitlementData.Name = Some ''RKE_NODE_SUPP'',
                              Unit = ''Count'', Value = Some (Sprintf_d n)\<rparr>]\<rparr>"
    have "lm_calls (snd (snd (CheckoutRancherLicense c' ?l n w2))) =
            lm_calls w2 @ [CheckoutLicenseCall ?input]"
      by (simp only: CheckoutRancherLicense_request[OF issuer] send_calls) simp
    with that have "inp = ?input" by simp
    then show ?thesis by simp
  qed
  show ?thesis
  proof (intro exI[of _ ?l] conjI)
    show "lic = Some ?l" by fact
    show "GrantedLicense.ProductSKU ?l \<noteq> None" by simp
    show "\<exists>sku s res s' vendor rest.
                 (sku = ''0b87d4fa-d1fe-41d8-830b-67d4ec381549''
                    \<or> sku = ''a303097d-1dc2-4548-8ea6-f46bb9842e21'')
                 \<and> ListReceivedLicenses (lm c)
                      \<lparr>Filters = [\<lparr>Filter.Name = Some ''ProductSKU'', Values = [sku]\<rparr>],
                       MaxResults = Some 1\<rparr> s = (Inr res, s')
                 \<and> Licenses res = vendor # rest
                 \<and> GrantedLicense.ProductSKU ?l =
                     Some (case GrantedLicense.ProductSKU vendor of None \<Rightarrow> sku | Some v \<Rightarrow> v)"
    proof -
      have "sku = ''0b87d4fa-d1fe-41d8-830b-67d4ec381549''
                    \<or> sku = ''a303097d-1dc2-4548-8ea6-f46bb9842e21''"
        using sku by (simp only: rancherProductSKUNonEmea_def rancherProductSKUEmea_def)
      with answer lic(1) show ?thesis
        by (intro exI[of _ sku], intro exI[of _ "remote s"], intro exI[of _ res],
            intro exI[of _ s'], intro exI[of _ vendor], intro exI[of _ rest]) simp
    qed
    show "\<forall>n w2 inp.
                 lm_calls (snd (snd (CheckoutRancherLicense c' ?l n w2))) =
                   lm_calls w2 @ [CheckoutLicenseCall inp]
                 \<longrightarrow> CheckoutLicenseInput.ProductSKU inp \<noteq> None"
      using sent by (intro allI impI)
  qed
qed

theorem GetRancherLicense_license_has_sku_witness:
  "\<exists>l. fst (fst (GetRancherLicense
          (stub_client (stub_lm (\<lambda>sku. if sku = ''a303097d-1dc2-4548-8ea6-f46bb9842e21''
                                   then Inr [rke_license None 50] else Inr [])
             (Inl (errorString ''none'')) (Inl (errorString ''none'')))) world0)) = Some l
       \<and> GrantedLicense.ProductSKU l \<noteq> None"
proof -
  let ?c = "stub_client (stub_lm (\<lambda>sku. if sku = ''a303097d-1dc2-4548-8ea6-f46bb9842e21''
                                   then Inr [rke_license None 50] else Inr [])
             (Inl (errorString ''none'')) (Inl (errorString ''none'')))"
  have run: "GetRancherLicense ?c world0 =
      ((Some (rke_license (Some ''a303097d-1dc2-4548-8ea6-f46bb9842e21'') 50), None), ?c,
       world0\<lparr>remote := 2,
               lm_calls := [lookup_call ''0b87d4fa-d1fe-41d8-830b-67d4ec381549'',
                            lookup_call ''a303097d-1dc2-4548-8ea6-f46bb9842e21'']\<rparr>)"
    by (simp add: GetRancherLicense_def getLicenseForProductID_def stub_defs lookup_call_def
        rke_license_def)
  from GetRancherLicense_license_has_sku[OF run] obtain l where
    "Some (rke_license (Some ''a303097d-1dc2-4548-8ea6-f46bb9842e21'') 50) = Some l"
    "GrantedLicense.ProductSKU l \<noteq> None"
    by blast
  with run show ?thesis by simp
qed

section \<open>Runs of operations\<close>

lemma GetRancherLicense_world:
  "snd (snd (GetRancherLicense c w)) =
     (let w1 = snd (snd (getLicenseForProductID c rancherProductSKUNonEmea w))
      in if snd (fst (getLicenseForProductID c rancherProductSKUNonEmea w)) = None then w1
         else snd (snd (getLicenseForProductID c rancherProductSKUEmea w1)))"
proof -
  obtain l1 e1 c1 w1 where first:
    "getLicenseForProductID c rancherProductSKUNonEmea w = ((l1, e1), c1, w1)"
    by (metis prod.exhaust)
  have c1: "c1 = c"
    using getLicenseForProductID_client[of c rancherProductSKUNonEmea w] first by simp
  show ?thesis using first c1
    by (simp add: GetRancherLicense_def split_beta split: option.splits)
qed

lemma CheckInRancherLicense_client: "fst (snd (CheckInRancherLicense c t w)) = c"
  by (simp add: CheckInRancherLicense_def Let_def split_beta split: sum.splits)

lemma CheckInRancherLicense_world:
  "snd (snd (CheckInRancherLicense c t w)) =
     snd (send (CheckInLicenseCall \<lparr>CheckInLicenseInput.LicenseConsumptionToken = Some t\<rparr>)
            (CheckInLicense (lm c) \<lparr>CheckInLicenseInput.LicenseConsumptionToken = Some t\<rparr>) w)"
  by (simp add: CheckInRancherLicense_def Let_def split_beta split: sum.splits)

lemma ExtendRancherLicenseConsumptionToken_client:
  "fst (snd (ExtendRancherLicenseConsumptionToken c t w)) = c"
  by (simp add: ExtendRancherLicenseConsumptionToken_def Let_def split_beta split: sum.splits)

lemma ExtendRancherLicenseConsumptionToken_world:
  "snd (snd (ExtendRancherLicenseConsumptionToken c t w)) =
     snd (send (ExtendLicenseConsumptionCall
                  \<lparr>ExtendLicenseConsumptionInput.LicenseConsumptionToken = Some t\<rparr>)
            (ExtendLicenseConsumption (lm c)
               \<lparr>ExtendLicenseConsumptionInput.LicenseConsumptionToken = Some t\<rparr>) w)"
  by (simp add: ExtendRancherLicenseConsumptionToken_def Let_def split_beta split: sum.splits)

lemma GetNumberOfAvailableEntitlements_client:
  "fst (snd (GetNumberOfAvailableEntitlements c l w)) = c"
  by (simp add: GetNumberOfAvailableEntitlements_def Let_def split_beta
      split: sum.splits outcome.splits option.splits)

lemma GetNumberOfAvailableEntitlements_world:
  "snd (snd (GetNumberOfAvailableEntitlements c l w)) =
     snd (send (GetLicenseUsageCall \<lparr>GetLicenseUsageInput.LicenseArn = GrantedLicense.LicenseArn l\<rparr>)
            (GetLicenseUsage (lm c)
               \<lparr>GetLicenseUsageInput.LicenseArn = GrantedLicense.LicenseArn l\<rparr>) w)"
  by (simp add: GetNumberOfAvailableEntitlements_def Let_def split_beta
      split: sum.splits outcome.splits option.splits)

lemma invoke_client: "fst (invoke x (c, w)) = c"
  by (cases x)
     (simp_all add: AccountNumber_def GetRancherLicense_client CheckoutRancherLicense_client
        CheckInRancherLicense_client ExtendRancherLicenseConsumptionToken_client
        GetNumberOfAvailableEntitlements_client)

lemma run_client: "fst (run ops (c, w)) = c"
proof (induction ops arbitrary: w)
  case Nil
  show ?case by simp
next
  case (Cons x xs)
  obtain w' where "invoke x (c, w) = (c, w')"
    using invoke_client[of x c w] by (cases "invoke x (c, w)") simp
  then show ?case using Cons.IH by simp
qed

lemma checkout_tokens_append:
  "checkout_tokens (xs @ ys) = checkout_tokens xs @ checkout_tokens ys"
  by (induction xs rule: checkout_tokens.induct) simp_all

text \<open>What an operation adds to the log of requests and takes from the random source.\<close>

lemma invoke_effect:
  "\<exists>calls. lm_calls (snd (invoke x (c, w))) = lm_calls w @ calls
         \<and> uuid_rand (snd (invoke x (c, w))) = uuid_rand w
         \<and> (checkout_tokens calls = [] \<and> uuid_drawn (snd (invoke x (c, w))) = uuid_drawn w
            \<or> checkout_tokens calls = [Some (uuid_rand w (uuid_drawn w))]
              \<and> uuid_drawn (snd (invoke x (c, w))) = Suc (uuid_drawn w))"
proof (cases x)
  case OpAccountNumber
  then show ?thesis by (simp add: AccountNumber_def)
next
  case OpGetRancherLicense
  then show ?thesis
    by (simp add: GetRancherLicense_world Let_def getLicenseForProductID_calls
        getLicenseForProductID_uuid lookup_call_def)
next
  case (OpCheckoutRancherLicense l n)
  show ?thesis
  proof (cases "Issuer l = None \<or> IssuerDetails.KeyFingerprint (the (Issuer l)) = None")
    case True
    then have "snd (snd (CheckoutRancherLicense c l n w)) = w"
      by (simp add: CheckoutRancherLicense_def split: option.splits)
    with OpCheckoutRancherLicense show ?thesis by simp
  next
    case False
    then obtain iss fp where "Issuer l = Some iss" "IssuerDetails.KeyFingerprint iss = Some fp"
      by auto
    from CheckoutRancherLicense_request[OF this, of c n w] OpCheckoutRancherLicense
    show ?thesis by (simp add: send_calls send_uuid)
  qed
next
  case (OpCheckInRancherLicense t)
  then show ?thesis by (simp add: CheckInRancherLicense_world send_calls send_uuid)
next
  case (OpExtendRancherLicenseConsumptionToken t)
  then show ?thesis
    by (simp add: ExtendRancherLicenseConsumptionToken_world send_calls send_uuid)
next
  case (OpGetNumberOfAvailableEntitlements l)
  then show ?thesis
    by (simp add: GetNumberOfAvailableEntitlements_world send_calls send_uuid)
qed

lemma invoke_tokens:
  assumes inj: "inj R"
      and inv: "uuid_rand w = R"
               "\<forall>t \<in> set (checkout_tokens (lm_calls w)). \<exists>i < uuid_drawn w. t = Some (R i)"
               "distinct (checkout_tokens (lm_calls w))"
  shows "uuid_rand (snd (invoke x (c, w))) = R
       \<and> (\<forall>t \<in> set (checkout_tokens (lm_calls (snd (invoke x (c, w))))).
             \<exists>i < uuid_drawn (snd (invoke x (c, w))). t = Some (R i))
       \<and> distinct (checkout_tokens (lm_calls (snd (invoke x (c, w)))))"
proof -
  from invoke_effect[of x c w] obtain calls where
    calls: "lm_calls (snd (invoke x (c, w))) = lm_calls w @ calls"
    and rand: "uuid_rand (snd (invoke x (c, w))) = uuid_rand w"
    and eff: "checkout_tokens calls = [] \<and> uuid_drawn (snd (invoke x (c, w))) = uuid_drawn w
            \<or> checkout_tokens calls = [Some (uuid_rand w (uuid_drawn w))]
              \<and> uuid_drawn (snd (invoke x (c, w))) = Suc (uuid_drawn w)"
    by blast
  from eff show ?thesis
  proof
    assume "checkout_tokens calls = [] \<and> uuid_drawn (snd (invoke x (c, w))) = uuid_drawn w"
    with calls rand inv show ?thesis by (simp add: checkout_tokens_append)
  next
    assume new: "checkout_tokens calls = [Some (uuid_rand w (uuid_drawn w))]
              \<and> uuid_drawn (snd (invoke x (c, w))) = Suc (uuid_drawn w)"
    have fresh: "Some (R (uuid_drawn w)) \<notin> set (checkout_tokens (lm_calls w))"
    proof
      assume "Some (R (uuid_drawn w)) \<in> set (checkout_tokens (lm_calls w))"
      with inv(2) obtain i where "i < uuid_drawn w" "Some (R (uuid_drawn w)) = Some (R i)"
        by blast
      with inj show False by (auto dest: injD)
    qed
    have older: "\<forall>t \<in> set (checkout_tokens (lm_calls w)). \<exists>i < Suc (uuid_drawn w). t = Some (R i)"
      using inv(2) less_Suc_eq by blast
    from new calls rand inv(1,3) fresh older show ?thesis
      by (auto simp add: checkout_tokens_append)
  qed
qed

lemma run_tokens:
  assumes inj: "inj R"
  shows "uuid_rand w = R \<Longrightarrow>
         \<forall>t \<in> set (checkout_tokens (lm_calls w)). \<exists>i < uuid_drawn w. t = Some (R i) \<Longrightarrow>
         distinct (checkout_tokens (lm_calls w)) \<Longrightarrow>
         distinct (checkout_tokens (lm_calls (snd (run ops (c, w)))))"
proof (induction ops arbitrary: w)
  case Nil
  then show ?case by simp
next
  case (Cons x xs)
  obtain w' where step: "invoke x (c, w) = (c, w')"
    using invoke_client[of x c w] by (cases "invoke x (c, w)") simp
  from invoke_tokens[OF inj Cons.prems, of x c] step
  have "distinct (checkout_tokens (lm_calls (snd (run xs (c, w')))))"
    by (intro Cons.IH) simp_all
  with step show ?case by simp
qed

section \<open>Decimal strings\<close>

text \<open>What \<^verbatim>\<open>Sprintf("%d", n)\<close> writes, \<^verbatim>\<open>Atoi\<close> reads back as \<open>n\<close>.\<close>

declare digits.simps [simp del]

lemma digit_char:
  assumes "k < 10"
  shows "of_char (''0123456789'' ! k) = (48 + k :: nat)"
proof -
  from assms have "k \<in> {0, 1, 2, 3, 4, 5, 6, 7, 8, 9}" by auto
  then show ?thesis by auto
qed

lemma ParseUint_loop_append:
  "ParseUint_loop n (xs @ ys) =
     (case ParseUint_loop n xs of
        (m, None) \<Rightarrow> ParseUint_loop m ys
      | (m, Some e) \<Rightarrow> (m, Some e))"
  by (induction xs arbitrary: n) (simp_all add: Let_def)

lemma digits_nonempty: "digits k \<noteq> []"
  by (subst digits.simps) simp

lemma ParseUint_loop_digits:
  "acc * 10 ^ length (digits k) + k \<le> maxUint64 \<Longrightarrow>
     ParseUint_loop acc (digits k) = (acc * 10 ^ length (digits k) + k, None)"
proof (induction k arbitrary: acc rule: digits.induct)
  case (1 n)
  show ?case
  proof (cases "n < 10")
    case True
    then have d: "digits n = [''0123456789'' ! n]" by (subst digits.simps) simp
    from "1.prems" d have "acc * 10 + n \<le> maxUint64" by simp
    moreover from this have "\<not> acc \<ge> maxUint64 div 10 + 1" by (simp add: maxUint64_def)
    ultimately show ?thesis using True d by (simp add: digit_char Let_def)
  next
    case False
    then have d: "digits n = digits (n div 10) @ [''0123456789'' ! (n mod 10)]"
      by (subst digits.simps) simp
    let ?len = "length (digits (n div 10))"
    let ?m = "acc * 10 ^ ?len + n div 10"
    have eq: "acc * 10 ^ length (digits n) + n = ?m * 10 + n mod 10"
      using d by (simp add: algebra_simps)
    with "1.prems" have bound: "?m * 10 + n mod 10 \<le> maxUint64" by simp
    then have "?m \<le> maxUint64" by simp
    with "1.IH"[OF False] have prefix: "ParseUint_loop acc (digits (n div 10)) = (?m, None)"
      by simp
    have lt: "n mod 10 < 10" by simp
    from bound have "\<not> ?m \<ge> maxUint64 div 10 + 1" by (simp add: maxUint64_def)
    with bound prefix show ?thesis
      unfolding eq d ParseUint_loop_append
      by (simp add: digit_char[OF lt] Let_def)
  qed
qed

lemma hd_digits: "\<exists>k < 10. hd (digits n) = ''0123456789'' ! k"
proof (induction n rule: digits.induct)
  case (1 n)
  show ?case
  proof (cases "n < 10")
    case True
    then have "digits n = [''0123456789'' ! n]" by (subst digits.simps) simp
    with True show ?thesis by auto
  next
    case False
    then have "digits n = digits (n div 10) @ [''0123456789'' ! (n mod 10)]"
      by (subst digits.simps) simp
    with "1.IH"[OF False] digits_nonempty[of "n div 10"] show ?thesis by simp
  qed
qed

lemma hd_digits_no_sign: "hd (digits n) \<noteq> CHR ''+''" "hd (digits n) \<noteq> CHR ''-''"
proof -
  from hd_digits[of n] obtain k where k: "k < 10" "hd (digits n) = ''0123456789'' ! k" by blast
  from digit_char[OF k(1)] k(2) have "of_char (hd (digits n)) = (48 + k :: nat)" by simp
  then show "hd (digits n) \<noteq> CHR ''+''" "hd (digits n) \<noteq> CHR ''-''" by auto
qed

lemma ParseUint_digits: "k \<le> maxUint64 \<Longrightarrow> ParseUint (digits k) = (k, None)"
  using ParseUint_loop_digits[of 0 k] by (simp add: ParseUint_def digits_nonempty)

lemma Atoi_Sprintf_d: "Atoi (Sprintf_d n) = (n, None)"
proof (cases "sint n < 0")
  case False
  let ?k = "nat (sint n)"
  have k: "?k < 2 ^ 63" using sint_lt[of n] by simp
  then have "?k \<le> maxUint64" by (simp add: maxUint64_def)
  from ParseUint_digits[OF this] k False show ?thesis
    by (simp add: Atoi_def Sprintf_d_def digits_nonempty hd_digits_no_sign ErrSyntax_def)
next
  case True
  let ?k = "nat (- sint n)"
  have k: "?k \<le> 2 ^ 63" using sint_ge[of n] by simp
  then have small: "?k \<le> maxUint64" by (simp add: maxUint64_def)
  have negated: "- (of_nat ?k) = n"
  proof -
    have "of_nat ?k = (word_of_int (- sint n) :: 64 word)" using True by simp
    then show ?thesis by simp
  qed
  from ParseUint_digits[OF small] k True negated show ?thesis
    by (simp add: Atoi_def Sprintf_d_def ErrSyntax_def)
qed

section \<open>The checkout request\<close>

lemma world0_uuid_inj: "inj (uuid_rand world0)"
proof (rule injI)
  fix i j assume "uuid_rand world0 i = uuid_rand world0 j"
  then have "length (replicate (Suc i) CHR ''f'') = length (replicate (Suc j) CHR ''f'')"
    by (simp add: world0_def)
  then show "i = j" by simp
qed

text \<open>
  Claim C3. For a license with an issuer key fingerprint and an amount \<open>n\<close>,
  \<^verbatim>\<open>CheckoutRancherLicense\<close> sends exactly one request: a checkout of type
  \<^verbatim>\<open>provisional\<close> with the single entitlement \<^verbatim>\<open>RKE_NODE_SUPP\<close>, unit \<^verbatim>\<open>Count\<close>,
  whose value is the decimal string of \<open>n\<close> (the string that \<^verbatim>\<open>Atoi\<close> reads back as
  \<open>n\<close>), with the key fingerprint and the product SKU of the license, and with the next
  string of the UUID source as client token; the call draws that one string. When the
  service answers with a result, this result is returned as it is. The UUID source is a
  parameter: when it never repeats a string, the tokens of all checkout requests sent in
  any run of operations, from a world with no earlier checkout, are pairwise distinct.
\<close>

theorem CheckoutRancherLicense_request_and_result:
  assumes issuer: "Issuer l = Some iss" and fingerprint: "IssuerDetails.KeyFingerprint iss = Some fp"
  shows "lm_calls (snd (snd (CheckoutRancherLicense c l n w))) =
           lm_calls w @
           [CheckoutLicenseCall
              \<lparr>CheckoutType = CheckoutTypeProvisional,
               ClientToken = Some (uuid_rand w (uuid_drawn w)),
               ProductSKU = GrantedLicense.ProductSKU l,
               KeyFingerprint = Some fp,
               Entitlements = [\<lparr>EntitlementData.Name = Some ''RKE_NODE_SUPP'',
                                Unit = ''Count'', Value = Some (Sprintf_d n)\<rparr>]\<rparr>]
       \<and> Atoi (Sprintf_d n) = (n, None)
       \<and> uuid_drawn (snd (snd (CheckoutRancherLicense c l n w))) = Suc (uuid_drawn w)
       \<and> (\<forall>res s'.
             CheckoutLicense (lm c)
               \<lparr>CheckoutType = CheckoutTypeProvisional,
                ClientToken = Some (uuid_rand w (uuid_drawn w)),
                ProductSKU = GrantedLicense.ProductSKU l,
                KeyFingerprint = Some fp,
                Entitlements = [\<lparr>EntitlementData.Name = Some ''RKE_NODE_SUPP'',
                                 Unit = ''Count'', Value = Some (Sprintf_d n)\<rparr>]\<rparr>
               (remote w) = (Inr res, s')
             \<longrightarrow> fst (CheckoutRancherLicense c l n w) = (Some res, None))
       \<and> (inj (uuid_rand w) \<and> checkout_tokens (lm_calls w) = [] \<longrightarrow>
            (\<forall>ops. distinct (checkout_tokens (lm_calls (snd (run ops (c, w)))))))"
proof (intro conjI allI impI)
  show "lm_calls (snd (snd (CheckoutRancherLicense c l n w))) =
           lm_calls w @
           [CheckoutLicenseCall
              \<lparr>CheckoutType = CheckoutTypeProvisional,
               ClientToken = Some (uuid_rand w (uuid_drawn w)),
               ProductSKU = GrantedLicense.ProductSKU l,
               KeyFingerprint = Some fp,
               Entitlements = [\<lparr>EntitlementData.Name = Some ''RKE_NODE_SUPP'',
                                Unit = ''Count'', Value = Some (Sprintf_d n)\<rparr>]\<rparr>]"
    by (simp only: CheckoutRancherLicense_request[OF issuer fingerprint] send_calls) simp
  show "Atoi (Sprintf_d n) = (n, None)" by (rule Atoi_Sprintf_d)
  show "uuid_drawn (snd (snd (CheckoutRancherLicense c l n w))) = Suc (uuid_drawn w)"
    by (simp only: CheckoutRancherLicense_request[OF issuer fingerprint] send_uuid) simp
next
  fix res s'
  assume "CheckoutLicense (lm c)
               \<lparr>CheckoutType = CheckoutTypeProvisional,
                ClientToken = Some (uuid_rand w (uuid_drawn w)),
                ProductSKU = GrantedLicense.ProductSKU l,
                KeyFingerprint = Some fp,
                Entitlements = [\<lparr>EntitlementData.Name = Some ''RKE_NODE_SUPP'',
                                 Unit = ''Count'', Value = Some (Sprintf_d n)\<rparr>]\<rparr>
               (remote w) = (Inr res, s')"
  then show "fst (CheckoutRancherLicense c l n w) = (Some res, None)"
    by (simp add: CheckoutRancherLicense_answer[OF issuer fingerprint])
next
  fix ops
  assume "inj (uuid_rand w) \<and> checkout_tokens (lm_calls w) = []"
  then show "distinct (checkout_tokens (lm_calls (snd (run ops (c, w)))))"
    by (intro run_tokens[of "uuid_rand w"]) simp_all
qed

theorem CheckoutRancherLicense_request_and_result_witness:
  "lm_calls (snd (snd (CheckoutRancherLicense
      (stub_client (stub_lm (\<lambda>_. Inr [])
         (Inr \<lparr>CheckoutLicenseOutput.LicenseConsumptionToken = Some ''token-1'',
               Expiration = None\<rparr>) (Inl (errorString ''none''))))
      (rke_license (Some ''0b87d4fa-d1fe-41d8-830b-67d4ec381549'') 100) 3 world0))) =
     [CheckoutLicenseCall
        \<lparr>CheckoutType = CheckoutTypeProvisional,
         ClientToken = Some ''f'',
         ProductSKU = Some ''0b87d4fa-d1fe-41d8-830b-67d4ec381549'',
         KeyFingerprint = Some ''aws:123:issuer:fp'',
         Entitlements = [\<lparr>EntitlementData.Name = Some ''RKE_NODE_SUPP'',
                          Unit = ''Count'', Value = Some ''3''\<rparr>]\<rparr>]
   \<and> fst (CheckoutRancherLicense
      (stub_client (stub_lm (\<lambda>_. Inr [])
         (Inr \<lparr>CheckoutLicenseOutput.LicenseConsumptionToken = Some ''token-1'',
               Expiration = None\<rparr>) (Inl (errorString ''none''))))
      (rke_license (Some ''0b87d4fa-d1fe-41d8-830b-67d4ec381549'') 100) 3 world0) =
     (Some \<lparr>CheckoutLicenseOutput.LicenseConsumptionToken = Some ''token-1'',
            Expiration = None\<rparr>, None)
   \<and> distinct (checkout_tokens (lm_calls (snd (run
        [OpCheckoutRancherLicense (rke_license (Some ''0b87d4fa-d1fe-41d8-830b-67d4ec381549'') 100) 3,
         OpGetRancherLicense,
         OpCheckoutRancherLicense (rke_license (Some ''0b87d4fa-d1fe-41d8-830b-67d4ec381549'') 100) 3]
        (stub_client (stub_lm (\<lambda>_. Inr [])
           (Inr \<lparr>CheckoutLicenseOutput.LicenseConsumptionToken = Some ''token-1'',
                 Expiration = None\<rparr>) (Inl (errorString ''none''))), world0)))))"
proof -
  let ?out = "\<lparr>CheckoutLicenseOutput.LicenseConsumptionToken = Some ''token-1'',
               Expiration = None\<rparr>"
  let ?c = "stub_client (stub_lm (\<lambda>_. Inr []) (Inr ?out) (Inl (errorString ''none'')))"
  let ?l = "rke_license (Some ''0b87d4fa-d1fe-41d8-830b-67d4ec381549'') 100"
  let ?iss = "\<lparr>IssuerDetails.KeyFingerprint = Some ''aws:123:issuer:fp''\<rparr>"
  have issuer: "Issuer ?l = Some ?iss" by (simp add: rke_license_def)
  have fingerprint: "IssuerDetails.KeyFingerprint ?iss = Some ''aws:123:issuer:fp''" by simp
  note fact = CheckoutRancherLicense_request_and_result[OF issuer fingerprint, of ?c 3 world0]
  have rendered: "Sprintf_d 3 = ''3''" by (simp add: Sprintf_d_def digits.simps)
  have sku: "GrantedLicense.ProductSKU ?l = Some ''0b87d4fa-d1fe-41d8-830b-67d4ec381549''"
    by (simp add: rke_license_def)
  have start: "lm_calls world0 = []" "uuid_drawn world0 = 0" "uuid_rand world0 0 = ''f''"
    "remote world0 = 0"
    by (simp_all add: world0_def)
  have reply: "\<And>inp. CheckoutLicense (lm ?c) inp 0 = (Inr ?out, 1)"
    by (simp add: stub_client_def stub_lm_def)
  have fresh: "inj (uuid_rand world0) \<and> checkout_tokens (lm_calls world0) = []"
    using world0_uuid_inj by (simp add: start)
  from fact fresh have "\<forall>ops. distinct (checkout_tokens (lm_calls (snd (run ops (?c, world0)))))"
    by blast
  then have tokens: "distinct (checkout_tokens (lm_calls (snd (run
        [OpCheckoutRancherLicense ?l 3, OpGetRancherLicense, OpCheckoutRancherLicense ?l 3]
        (?c, world0)))))"
    by (rule spec)
  from fact rendered sku start reply have
    "lm_calls (snd (snd (CheckoutRancherLicense ?c ?l 3 world0))) =
     [CheckoutLicenseCall
        \<lparr>CheckoutType = CheckoutTypeProvisional,
         ClientToken = Some ''f'',
         ProductSKU = Some ''0b87d4fa-d1fe-41d8-830b-67d4ec381549'',
         KeyFingerprint = Some ''aws:123:issuer:fp'',
         Entitlements = [\<lparr>EntitlementData.Name = Some ''RKE_NODE_SUPP'',
                          Unit = ''Count'', Value = Some ''3''\<rparr>]\<rparr>]"
    and "fst (CheckoutRancherLicense ?c ?l 3 world0) = (Some ?out, None)"
    by simp_all
  with tokens show ?thesis by (simp only: simp_thms)
qed

section \<open>The client struct is never written\<close>

text \<open>
  Claim C9. After any run of operations of the interface the client struct is the one
  the run started with, so \<^verbatim>\<open>AccountNumber()\<close> returns after the run what it returned
  before it, which is the stored \<^verbatim>\<open>acctNum\<close>; and each single operation returns the
  struct as it received it.
\<close>

theorem operations_leave_client_unchanged:
  "fst (run ops (c, w)) = c
   \<and> fst (AccountNumber (fst (run ops (c, w))) (snd (run ops (c, w)))) = fst (AccountNumber c w)
   \<and> fst (AccountNumber c w) = acctNum c
   \<and> fst (snd (AccountNumber c w)) = c
   \<and> fst (snd (GetRancherLicense c w)) = c
   \<and> fst (snd (CheckoutRancherLicense c l n w)) = c
   \<and> fst (snd (CheckInRancherLicense c t w)) = c
   \<and> fst (snd (ExtendRancherLicenseConsumptionToken c t w)) = c
   \<and> fst (snd (GetNumberOfAvailableEntitlements c l w)) = c"
  by (simp add: run_client AccountNumber_def GetRancherLicense_client
      CheckoutRancherLicense_client CheckInRancherLicense_client
      ExtendRancherLicenseConsumptionToken_client GetNumberOfAvailableEntitlements_client)

theorem operations_leave_client_unchanged_witness:
  "fst (run [OpGetRancherLicense,
             OpCheckoutRancherLicense (rke_license None 100) 3,
             OpCheckInRancherLicense ''token-1'',
             OpGetNumberOfAvailableEntitlements (rke_license None 100),
             OpAccountNumber]
         (stub_client (stub_lm (\<lambda>_. Inr [rke_license None 100])
            (Inl (errorString ''none'')) (Inr (usage_of [(Some ''RKE_NODE_SUPP'', Some ''30'')]))),
          world0)) =
     stub_client (stub_lm (\<lambda>_. Inr [rke_license None 100])
            (Inl (errorString ''none'')) (Inr (usage_of [(Some ''RKE_NODE_SUPP'', Some ''30'')])))
   \<and> fst (AccountNumber
       (fst (run [OpGetRancherLicense,
             OpCheckoutRancherLicense (rke_license None 100) 3,
             OpCheckInRancherLicense ''token-1'',
             OpGetNumberOfAvailableEntitlements (rke_license None 100),
             OpAccountNumber]
         (stub_client (stub_lm (\<lambda>_. Inr [rke_license None 100])
            (Inl (errorString ''none'')) (Inr (usage_of [(Some ''RKE_NODE_SUPP'', Some ''30'')]))),
          world0)))
       (snd (run [OpGetRancherLicense,
             OpCheckoutRancherLicense (rke_license None 100) 3,
             OpCheckInRancherLicense ''token-1'',
             OpGetNumberOfAvailableEntitlements (rke_license None 100),
             OpAccountNumber]
         (stub_client (stub_lm (\<lambda>_. Inr [rke_license None 100])
            (Inl (errorString ''none'')) (Inr (usage_of [(Some ''RKE_NODE_SUPP'', Some ''30'')]))),
          world0)))) = ''123456789012''"
proof -
  let ?c = "stub_client (stub_lm (\<lambda>_. Inr [rke_license None 100])
            (Inl (errorString ''none'')) (Inr (usage_of [(Some ''RKE_NODE_SUPP'', Some ''30'')])))"
  let ?ops = "[OpGetRancherLicense,
             OpCheckoutRancherLicense (rke_license None 100) 3,
             OpCheckInRancherLicense ''token-1'',
             OpGetNumberOfAvailableEntitlements (rke_license None 100),
             OpAccountNumber]"
  note fact = operations_leave_client_unchanged[of ?ops ?c world0 "rke_license None 100" 3 "''token-1''"]
  have same: "fst (run ?ops (?c, world0)) = ?c"
    by (rule fact[THEN conjunct1])
  have again: "fst (AccountNumber (fst (run ?ops (?c, world0))) (snd (run ?ops (?c, world0)))) =
      fst (AccountNumber ?c world0)"
    by (rule fact[THEN conjunct2, THEN conjunct1])
  have stored: "fst (AccountNumber ?c world0) = acctNum ?c"
    by (rule fact[THEN conjunct2, THEN conjunct2, THEN conjunct1])
  have "acctNum ?c = ''123456789012''" by (simp add: stub_client_def)
  with same again stored show ?thesis by (simp only:)
qed

section \<open>The entitlements left\<close>

lemma getMaxRKEEntitlements_loop_found:
  assumes "\<forall>e \<in> set before. \<exists>name. Entitlement.Name e = Some name \<and> name \<noteq> ''RKE_NODE_SUPP''"
      and "Entitlement.Name entitlement = Some ''RKE_NODE_SUPP''"
      and "MaxCount entitlement = Some M"
  shows "getMaxRKEEntitlements_loop license (before @ entitlement # after) = Returns (M, None)"
  using assms by (induction before) (auto simp add: entitlementDimension_def)

lemma getMaxRKEEntitlements_loop_absent:
  assumes "\<forall>e \<in> set es. \<exists>name. Entitlement.Name e = Some name \<and> name \<noteq> ''RKE_NODE_SUPP''"
      and "GrantedLicense.LicenseArn license = Some arn"
  shows "getMaxRKEEntitlements_loop license es =
           Returns (0, Some (errorString
             (''entitlement RKE_NODE_SUPP not found on license for '' @ arn)))"
  using assms by (induction es) (auto simp add: entitlementDimension_def)

lemma getMaxRKEEntitlements_loop_error_zero:
  "getMaxRKEEntitlements_loop license es = Returns (m, Some err) \<Longrightarrow> m = 0"
  by (induction es) (auto split: option.splits if_splits)

lemma usage_loop_sum:
  assumes "\<forall>u \<in> set us. \<exists>name. EntitlementUsage.Name u = Some name
             \<and> (name = ''RKE_NODE_SUPP'' \<longrightarrow>
                  (\<exists>str v. ConsumedValue u = Some str \<and> Atoi str = (v, None)))"
  shows "usage_loop M total' us = Returns (M - (total' + sum_list (consumed_counts us)), None)"
  using assms
proof (induction us arbitrary: total')
  case Nil
  show ?case by simp
next
  case (Cons u us)
  from Cons.prems obtain name where name: "EntitlementUsage.Name u = Some name"
    and parse: "name = ''RKE_NODE_SUPP'' \<longrightarrow>
                  (\<exists>str v. ConsumedValue u = Some str \<and> Atoi str = (v, None))"
    by auto
  from Cons.prems have rest: "\<forall>u \<in> set us. \<exists>name. EntitlementUsage.Name u = Some name
             \<and> (name = ''RKE_NODE_SUPP'' \<longrightarrow>
                  (\<exists>str v. ConsumedValue u = Some str \<and> Atoi str = (v, None)))"
    by simp
  show ?case
  proof (cases "name = ''RKE_NODE_SUPP''")
    case True
    with parse obtain str v where "ConsumedValue u = Some str" "Atoi str = (v, None)" by blast
    with name True Cons.IH[OF rest, of "total' + v"] show ?thesis
      by (simp add: entitlementDimension_def add.assoc)
  next
    case False
    with name Cons.IH[OF rest, of total'] show ?thesis
      by (simp add: entitlementDimension_def)
  qed
qed

lemma usage_loop_parse_error_at:
  assumes "\<forall>u \<in> set before. \<exists>name. EntitlementUsage.Name u = Some name
             \<and> (name = ''RKE_NODE_SUPP'' \<longrightarrow>
                  (\<exists>str v. ConsumedValue u = Some str \<and> Atoi str = (v, None)))"
      and "EntitlementUsage.Name usage = Some ''RKE_NODE_SUPP''"
      and "ConsumedValue usage = Some str"
      and "Atoi str = (v, Some err)"
  shows "usage_loop M total' (before @ usage # after) = Returns (0, Some err)"
  using assms
proof (induction before arbitrary: total')
  case Nil
  then show ?case by (simp add: entitlementDimension_def)
next
  case (Cons u us)
  from Cons.prems(1) obtain name where name: "EntitlementUsage.Name u = Some name"
    and parse: "name = ''RKE_NODE_SUPP'' \<longrightarrow>
                  (\<exists>str v. ConsumedValue u = Some str \<and> Atoi str = (v, None))"
    by auto
  from Cons.prems(1) have rest: "\<forall>u \<in> set us. \<exists>name. EntitlementUsage.Name u = Some name
             \<and> (name = ''RKE_NODE_SUPP'' \<longrightarrow>
                  (\<exists>str v. ConsumedValue u = Some str \<and> Atoi str = (v, None)))"
    by simp
  note IH = Cons.IH[OF rest Cons.prems(2,3,4)]
  show ?case
  proof (cases "name = ''RKE_NODE_SUPP''")
    case True
    with parse obtain s n where "ConsumedValue u = Some s" "Atoi s = (n, None)" by blast
    with name True IH[of "total' + n"] show ?thesis
      by (simp add: entitlementDimension_def)
  next
    case False
    with name IH[of total'] show ?thesis by (simp add: entitlementDimension_def)
  qed
qed

lemma sint_difference_exact:
  fixes M :: "64 word"
  assumes "- (2 ^ 63) \<le> sint M - sum_list (map sint xs)"
      and "sint M - sum_list (map sint xs) < 2 ^ 63"
  shows "sint (M - sum_list xs) = sint M - sum_list (map sint xs)"
proof -
  have sum: "(word_of_int (sum_list (map sint ys)) :: 64 word) = sum_list ys" for ys
    by (induction ys) simp_all
  have "M - sum_list xs = word_of_int (sint M - sum_list (map sint xs))"
    by (simp add: sum)
  then have "sint (M - sum_list xs) = signed_take_bit 63 (sint M - sum_list (map sint xs))"
    by (simp only: sint_sbintrunc') simp
  with assms show ?thesis by (simp add: signed_take_bit_int_eq_self)
qed

lemma GetNumberOfAvailableEntitlements_answer:
  assumes "GetLicenseUsage (lm c)
             \<lparr>GetLicenseUsageInput.LicenseArn = GrantedLicense.LicenseArn license\<rparr> (remote w) = (r, s')"
  shows "fst (GetNumberOfAvailableEntitlements c license w) =
     (case r of
        Inl err \<Rightarrow> Returns (0, Some err)
      | Inr res \<Rightarrow>
          (case getMaxRKEEntitlements license of
             Panics \<Rightarrow> Panics
           | Returns (maxEntitlements, Some err) \<Rightarrow> Returns (0, Some err)
           | Returns (maxEntitlements, None) \<Rightarrow>
               (case LicenseUsage res of
                  None \<Rightarrow> Panics
                | Some lu \<Rightarrow> usage_loop maxEntitlements 0 (EntitlementUsages lu))))"
  using assms
  by (simp add: GetNumberOfAvailableEntitlements_def send_def
      split: sum.splits outcome.splits option.splits)

lemmas Atoi_eval = Atoi_def ParseUint_def maxUint64_def ErrSyntax_def ErrRange_def

lemmas available_eval = GetNumberOfAvailableEntitlements_def getMaxRKEEntitlements_def
  send_def stub_client_def stub_lm_def world0_def rke_license_def usage_of_def
  entitlementDimension_def

text \<open>
  Claim C5. For every license that contains the \<^verbatim>\<open>RKE_NODE_SUPP\<close> entitlement with
  maximum count \<open>M\<close> and every usage response whose records named \<^verbatim>\<open>RKE_NODE_SUPP\<close>
  have consumed counts that parse, \<^verbatim>\<open>GetNumberOfAvailableEntitlements\<close> is to return,
  without error, \<open>M\<close> minus the sum of the consumed counts of all these records. The code
  does not do so on every such input. Its loop reads \<^verbatim>\<open>*usage.Name\<close> of every usage
  record, the lookup of the maximum reads \<^verbatim>\<open>*entitlement.Name\<close> of every entitlement up
  to the one it looks for, and the loop starts from \<^verbatim>\<open>res.LicenseUsage\<close>, all without a
  nil check. With the maximum 100 and the usage records \<^verbatim>\<open>RKE_NODE_SUPP\<close> \<^verbatim>\<open>"30"\<close> and
  one record without a name the claim gives 70, and the operation panics; so it does with
  an entitlement without a name before the \<^verbatim>\<open>RKE_NODE_SUPP\<close> one, and with a usage
  response without a usage list. These are the unchecked reads of claim C8.
\<close>

theorem GetNumberOfAvailableEntitlements_available_panics:
  "fst (GetNumberOfAvailableEntitlements
          (stub_client (stub_lm (\<lambda>_. Inr []) (Inl (errorString ''none''))
             (Inr (usage_of [(Some ''RKE_NODE_SUPP'', Some ''30''), (None, Some ''20'')]))))
          (rke_license None 100) world0) = Panics
   \<and> fst (GetNumberOfAvailableEntitlements
          (stub_client (stub_lm (\<lambda>_. Inr []) (Inl (errorString ''none''))
             (Inr (usage_of [(Some ''RKE_NODE_SUPP'', Some ''30'')]))))
          ((rke_license None 100)\<lparr>GrantedLicense.Entitlements :=
              [\<lparr>Entitlement.Name = None, MaxCount = Some 7\<rparr>,
               \<lparr>Entitlement.Name = Some ''RKE_NODE_SUPP'', MaxCount = Some 100\<rparr>]\<rparr>)
          world0) = Panics
   \<and> fst (GetNumberOfAvailableEntitlements
          (stub_client (stub_lm (\<lambda>_. Inr []) (Inl (errorString ''none''))
             (Inr \<lparr>LicenseUsage = None\<rparr>)))
          (rke_license None 100) world0) = Panics"
  by (simp add: available_eval Atoi_eval)

text \<open>
  Where these fields are present the operation returns what the claim says. Let the
  usage request succeed and carry a usage list in which every record has a name and
  every record named \<^verbatim>\<open>RKE_NODE_SUPP\<close> has a consumed value that \<^verbatim>\<open>Atoi\<close> parses; let
  the first entitlement of the license named \<^verbatim>\<open>RKE_NODE_SUPP\<close> have the maximum count
  \<open>M\<close>, the entitlements before it having other names. Then the operation returns,
  without error, \<open>M\<close> minus the sum of the consumed counts of all the records named
  \<^verbatim>\<open>RKE_NODE_SUPP\<close>, not of the first one only, and returns it as it is when it is
  negative. The difference and the sum are those of Go's \<^verbatim>\<open>int\<close>; they are the exact
  integers whenever the exact difference fits in 64 bits.
\<close>

theorem GetNumberOfAvailableEntitlements_available:
  assumes usage: "GetLicenseUsage (lm c)
                    \<lparr>GetLicenseUsageInput.LicenseArn = GrantedLicense.LicenseArn license\<rparr>
                    (remote w) = (Inr res, s')"
      and present: "LicenseUsage res = Some lu"
      and entitlements: "GrantedLicense.Entitlements license = before @ entitlement # after"
      and others: "\<forall>e \<in> set before.
                     \<exists>name. Entitlement.Name e = Some name \<and> name \<noteq> ''RKE_NODE_SUPP''"
      and dimension: "Entitlement.Name entitlement = Some ''RKE_NODE_SUPP''"
      and maximum: "MaxCount entitlement = Some M"
      and records: "\<forall>u \<in> set (EntitlementUsages lu).
                      \<exists>name. EntitlementUsage.Name u = Some name
                        \<and> (name = ''RKE_NODE_SUPP'' \<longrightarrow>
                             (\<exists>str v. ConsumedValue u = Some str \<and> Atoi str = (v, None)))"
  shows "fst (GetNumberOfAvailableEntitlements c license w) =
           Returns (M - sum_list (consumed_counts (EntitlementUsages lu)), None)
       \<and> (- (2 ^ 63) \<le> sint M - sum_list (map sint (consumed_counts (EntitlementUsages lu)))
            \<and> sint M - sum_list (map sint (consumed_counts (EntitlementUsages lu))) < 2 ^ 63
          \<longrightarrow> sint (M - sum_list (consumed_counts (EntitlementUsages lu))) =
                sint M - sum_list (map sint (consumed_counts (EntitlementUsages lu))))"
proof
  have "getMaxRKEEntitlements license = Returns (M, None)"
    unfolding getMaxRKEEntitlements_def entitlements
    by (rule getMaxRKEEntitlements_loop_found[OF others dimension maximum])
  with usage present usage_loop_sum[OF records, of M 0]
  show "fst (GetNumberOfAvailableEntitlements c license w) =
           Returns (M - sum_list (consumed_counts (EntitlementUsages lu)), None)"
    by (simp add: GetNumberOfAvailableEntitlements_answer[OF usage])
next
  show "- (2 ^ 63) \<le> sint M - sum_list (map sint (consumed_counts (EntitlementUsages lu)))
            \<and> sint M - sum_list (map sint (consumed_counts (EntitlementUsages lu))) < 2 ^ 63
          \<longrightarrow> sint (M - sum_list (consumed_counts (EntitlementUsages lu))) =
                sint M - sum_list (map sint (consumed_counts (EntitlementUsages lu)))"
    using sint_difference_exact[of M "consumed_counts (EntitlementUsages lu)"] by blast
qed

theorem GetNumberOfAvailableEntitlements_available_witness:
  "fst (GetNumberOfAvailableEntitlements
          (stub_client (stub_lm (\<lambda>_. Inr []) (Inl (errorString ''none''))
             (Inr (usage_of [(Some ''RKE_NODE_SUPP'', Some ''30''), (Some ''USERS'', Some ''x''),
                             (Some ''RKE_NODE_SUPP'', Some ''20'')]))))
          (rke_license None 100) world0) = Returns (50, None)
   \<and> fst (GetNumberOfAvailableEntitlements
          (stub_client (stub_lm (\<lambda>_. Inr []) (Inl (errorString ''none''))
             (Inr (usage_of [(Some ''RKE_NODE_SUPP'', Some ''30'')]))))
          (rke_license None 10) world0) = Returns (- 20, None)
   \<and> sint (- 20 :: go_int) = - 20"
proof (intro conjI)
  let ?recs = "[(Some ''RKE_NODE_SUPP'', Some ''30''), (Some ''USERS'', Some ''x''),
                (Some ''RKE_NODE_SUPP'', Some ''20'')]"
  let ?c = "stub_client (stub_lm (\<lambda>_. Inr []) (Inl (errorString ''none''))
             (Inr (usage_of ?recs)))"
  let ?l = "rke_license None 100"
  let ?lu = "\<lparr>EntitlementUsages =
        map (\<lambda>(n, v). \<lparr>EntitlementUsage.Name = n, ConsumedValue = v\<rparr>) ?recs\<rparr>"
  have usage: "GetLicenseUsage (lm ?c)
                    \<lparr>GetLicenseUsageInput.LicenseArn = GrantedLicense.LicenseArn ?l\<rparr>
                    (remote world0) = (Inr (usage_of ?recs), 1)"
    by (simp add: stub_client_def stub_lm_def world0_def)
  have present: "LicenseUsage (usage_of ?recs) = Some ?lu" by (simp add: usage_of_def)
  have entitlements: "GrantedLicense.Entitlements ?l =
      [\<lparr>Entitlement.Name = Some ''USERS'', MaxCount = Some 7\<rparr>] @
      \<lparr>Entitlement.Name = Some ''RKE_NODE_SUPP'', MaxCount = Some 100\<rparr> # []"
    by (simp add: rke_license_def)
  have others: "\<forall>e \<in> set [\<lparr>Entitlement.Name = Some ''USERS'', MaxCount = Some 7\<rparr>].
                     \<exists>name. Entitlement.Name e = Some name \<and> name \<noteq> ''RKE_NODE_SUPP''"
    by simp
  have dimension: "Entitlement.Name \<lparr>Entitlement.Name = Some ''RKE_NODE_SUPP'', MaxCount = Some 100\<rparr>
      = Some ''RKE_NODE_SUPP''" by simp
  have maximum: "MaxCount \<lparr>Entitlement.Name = Some ''RKE_NODE_SUPP'', MaxCount = Some 100\<rparr>
      = Some 100" by simp
  have records: "\<forall>u \<in> set (EntitlementUsages ?lu).
                      \<exists>name. EntitlementUsage.Name u = Some name
                        \<and> (name = ''RKE_NODE_SUPP'' \<longrightarrow>
                             (\<exists>str v. ConsumedValue u = Some str \<and> Atoi str = (v, None)))"
    by (simp add: Atoi_eval)
  have counts: "consumed_counts (EntitlementUsages ?lu) = [30, 20]"
    by (simp add: Atoi_eval)
  have result: "fst (GetNumberOfAvailableEntitlements ?c ?l world0) =
      Returns (100 - sum_list (consumed_counts (EntitlementUsages ?lu)), None)"
    by (rule GetNumberOfAvailableEntitlements_available
         [OF usage present entitlements others dimension maximum records, THEN conjunct1])
  show "fst (GetNumberOfAvailableEntitlements ?c ?l world0) = Returns (50, None)"
    unfolding result counts by simp
next
  let ?recs = "[(Some ''RKE_NODE_SUPP'', Some ''30'')]"
  let ?c = "stub_client (stub_lm (\<lambda>_. Inr []) (Inl (errorString ''none''))
             (Inr (usage_of ?recs)))"
  let ?l = "rke_license None 10"
  let ?lu = "\<lparr>EntitlementUsages =
        map (\<lambda>(n, v). \<lparr>EntitlementUsage.Name = n, ConsumedValue = v\<rparr>) ?recs\<rparr>"
  have usage: "GetLicenseUsage (lm ?c)
                    \<lparr>GetLicenseUsageInput.LicenseArn = GrantedLicense.LicenseArn ?l\<rparr>
                    (remote world0) = (Inr (usage_of ?recs), 1)"
    by (simp add: stub_client_def stub_lm_def world0_def)
  have present: "LicenseUsage (usage_of ?recs) = Some ?lu" by (simp add: usage_of_def)
  have entitlements: "GrantedLicense.Entitlements ?l =
      [\<lparr>Entitlement.Name = Some ''USERS'', MaxCount = Some 7\<rparr>] @
      \<lparr>Entitlement.Name = Some ''RKE_NODE_SUPP'', MaxCount = Some 10\<rparr> # []"
    by (simp add: rke_license_def)
  have others: "\<forall>e \<in> set [\<lparr>Entitlement.Name = Some ''USERS'', MaxCount = Some 7\<rparr>].
                     \<exists>name. Entitlement.Name e = Some name \<and> name \<noteq> ''RKE_NODE_SUPP''"
    by simp
  have dimension: "Entitlement.Name \<lparr>Entitlement.Name = Some ''RKE_NODE_SUPP'', MaxCount = Some 10\<rparr>
      = Some ''RKE_NODE_SUPP''" by simp
  have maximum: "MaxCount \<lparr>Entitlement.Name = Some ''RKE_NODE_SUPP'', MaxCount = Some 10\<rparr>
      = Some 10" by simp
  have records: "\<forall>u \<in> set (EntitlementUsages ?lu).
                      \<exists>name. EntitlementUsage.Name u = Some name
                        \<and> (name = ''RKE_NODE_SUPP'' \<longrightarrow>
                             (\<exists>str v. ConsumedValue u = Some str \<and> Atoi str = (v, None)))"
    by (simp add: Atoi_eval)
  have counts: "consumed_counts (EntitlementUsages ?lu) = [30]"
    by (simp add: Atoi_eval)
  have result: "fst (GetNumberOfAvailableEntitlements ?c ?l world0) =
      Returns (10 - sum_list (consumed_counts (EntitlementUsages ?lu)), None)"
    by (rule GetNumberOfAvailableEntitlements_available
         [OF usage present entitlements others dimension maximum records, THEN conjunct1])
  show "fst (GetNumberOfAvailableEntitlements ?c ?l world0) = Returns (- 20, None)"
    unfolding result counts by simp
next
  show "sint (- 20 :: go_int) = - 20" by simp
qed

text \<open>
  Beyond 64 bits the sum wraps, as every sum of \<^verbatim>\<open>int\<close> values does in Go: with a
  maximum of 1 and two records of 9223372036854775807 the operation returns 3.
\<close>

lemma GetNumberOfAvailableEntitlements_wraps:
  "fst (GetNumberOfAvailableEntitlements
          (stub_client (stub_lm (\<lambda>_. Inr []) (Inl (errorString ''none''))
             (Inr (usage_of [(Some ''RKE_NODE_SUPP'', Some ''9223372036854775807''),
                             (Some ''RKE_NODE_SUPP'', Some ''9223372036854775807'')]))))
          (rke_license None 1) world0) = Returns (3, None)"
  by (simp add: available_eval Atoi_eval)

text \<open>
  Claim C6. \<^verbatim>\<open>GetNumberOfAvailableEntitlements\<close> is to return 0 with an error when the
  usage request fails, when the \<^verbatim>\<open>RKE_NODE_SUPP\<close> dimension is absent from the
  entitlements of the license, and when a consumed value of a record named
  \<^verbatim>\<open>RKE_NODE_SUPP\<close> does not parse. The code does so in the first case only. With the
  dimension absent, \<^verbatim>\<open>getMaxRKEEntitlements\<close> builds its error from
  \<^verbatim>\<open>*license.LicenseArn\<close> without a nil check, and reads \<^verbatim>\<open>*entitlement.Name\<close> of every
  entitlement on the way: a license without ARN, or with an entitlement without a name,
  makes the operation panic where the claim has it return 0 and an error. With a value
  that does not parse, the loop panics at a record without a name that comes before it.
  These are the unchecked reads of claim C8.
\<close>

theorem GetNumberOfAvailableEntitlements_failures_panics:
  "fst (GetNumberOfAvailableEntitlements
          (stub_client (stub_lm (\<lambda>_. Inr []) (Inl (errorString ''none''))
             (Inr (usage_of []))))
          ((rke_license None 100)\<lparr>GrantedLicense.LicenseArn := None,
              GrantedLicense.Entitlements :=
                [\<lparr>Entitlement.Name = Some ''USERS'', MaxCount = Some 7\<rparr>]\<rparr>)
          world0) = Panics
   \<and> fst (GetNumberOfAvailableEntitlements
          (stub_client (stub_lm (\<lambda>_. Inr []) (Inl (errorString ''none''))
             (Inr (usage_of []))))
          ((rke_license None 100)\<lparr>GrantedLicense.Entitlements :=
              [\<lparr>Entitlement.Name = None, MaxCount = Some 7\<rparr>]\<rparr>)
          world0) = Panics
   \<and> fst (GetNumberOfAvailableEntitlements
          (stub_client (stub_lm (\<lambda>_. Inr []) (Inl (errorString ''none''))
             (Inr (usage_of [(None, Some ''1''), (Some ''RKE_NODE_SUPP'', Some ''2x'')]))))
          (rke_license None 100) world0) = Panics"
  by (simp add: available_eval Atoi_eval)

text \<open>
  Where the fields read on the way are present, the operation returns 0 with an error in
  each of the three cases. First, the usage request fails: the error is the service's,
  whatever the license. Second, the request succeeds and no entitlement of the license is
  named \<^verbatim>\<open>RKE_NODE_SUPP\<close> (each has some other name, and the license has an ARN, which
  the error text names). Third, the maximum is found, and among the usage records one
  named \<^verbatim>\<open>RKE_NODE_SUPP\<close> has a consumed value that does not parse, the records before
  it having names and, where they are named \<^verbatim>\<open>RKE_NODE_SUPP\<close>, values that parse: the
  error of \<^verbatim>\<open>Atoi\<close> is returned with the integer 0, whatever was summed before and
  whatever records follow.
\<close>

theorem GetNumberOfAvailableEntitlements_failures:
  "(\<forall>err s'.
      GetLicenseUsage (lm c)
        \<lparr>GetLicenseUsageInput.LicenseArn = GrantedLicense.LicenseArn license\<rparr> (remote w) =
        (Inl err, s')
      \<longrightarrow> fst (GetNumberOfAvailableEntitlements c license w) = Returns (0, Some err))
   \<and> (\<forall>res s' arn.
        GetLicenseUsage (lm c)
          \<lparr>GetLicenseUsageInput.LicenseArn = GrantedLicense.LicenseArn license\<rparr> (remote w) =
          (Inr res, s')
        \<and> GrantedLicense.LicenseArn license = Some arn
        \<and> (\<forall>e \<in> set (GrantedLicense.Entitlements license).
              \<exists>name. Entitlement.Name e = Some name \<and> name \<noteq> ''RKE_NODE_SUPP'')
        \<longrightarrow> fst (GetNumberOfAvailableEntitlements c license w) =
              Returns (0, Some (errorString
                (''entitlement RKE_NODE_SUPP not found on license for '' @ arn))))
   \<and> (\<forall>res s' lu before entitlement after M earlier usage later str v err.
        GetLicenseUsage (lm c)
          \<lparr>GetLicenseUsageInput.LicenseArn = GrantedLicense.LicenseArn license\<rparr> (remote w) =
          (Inr res, s')
        \<and> LicenseUsage res = Some lu
        \<and> GrantedLicense.Entitlements license = before @ entitlement # after
        \<and> (\<forall>e \<in> set before.
              \<exists>name. Entitlement.Name e = Some name \<and> name \<noteq> ''RKE_NODE_SUPP'')
        \<and> Entitlement.Name entitlement = Some ''RKE_NODE_SUPP''
        \<and> MaxCount entitlement = Some M
        \<and> EntitlementUsages lu = earlier @ usage # later
        \<and> (\<forall>u \<in> set earlier.
              \<exists>name. EntitlementUsage.Name u = Some name
                \<and> (name = ''RKE_NODE_SUPP'' \<longrightarrow>
                     (\<exists>str v. ConsumedValue u = Some str \<and> Atoi str = (v, None))))
        \<and> EntitlementUsage.Name usage = Some ''RKE_NODE_SUPP''
        \<and> ConsumedValue usage = Some str
        \<and> Atoi str = (v, Some err)
        \<longrightarrow> fst (GetNumberOfAvailableEntitlements c license w) = Returns (0, Some err))"
proof (intro conjI allI impI)
  fix err s'
  assume "GetLicenseUsage (lm c)
        \<lparr>GetLicenseUsageInput.LicenseArn = GrantedLicense.LicenseArn license\<rparr> (remote w) =
        (Inl err, s')"
  then show "fst (GetNumberOfAvailableEntitlements c license w) = Returns (0, Some err)"
    by (simp add: GetNumberOfAvailableEntitlements_answer[of c license w "Inl err" s'])
next
  fix res s' arn
  assume a: "GetLicenseUsage (lm c)
          \<lparr>GetLicenseUsageInput.LicenseArn = GrantedLicense.LicenseArn license\<rparr> (remote w) =
          (Inr res, s')
        \<and> GrantedLicense.LicenseArn license = Some arn
        \<and> (\<forall>e \<in> set (GrantedLicense.Entitlements license).
              \<exists>name. Entitlement.Name e = Some name \<and> name \<noteq> ''RKE_NODE_SUPP'')"
  then have "getMaxRKEEntitlements license =
      Returns (0, Some (errorString
                (''entitlement RKE_NODE_SUPP not found on license for '' @ arn)))"
    unfolding getMaxRKEEntitlements_def
    by (intro getMaxRKEEntitlements_loop_absent) simp_all
  moreover from a have "GetLicenseUsage (lm c)
          \<lparr>GetLicenseUsageInput.LicenseArn = GrantedLicense.LicenseArn license\<rparr> (remote w) =
          (Inr res, s')" by (rule conjunct1)
  ultimately show "fst (GetNumberOfAvailableEntitlements c license w) =
              Returns (0, Some (errorString
                (''entitlement RKE_NODE_SUPP not found on license for '' @ arn)))"
    by (simp add: GetNumberOfAvailableEntitlements_answer[of c license w "Inr res" s'])
next
  fix res s' lu before entitlement after M earlier usage later str v err
  assume a: "GetLicenseUsage (lm c)
          \<lparr>GetLicenseUsageInput.LicenseArn = GrantedLicense.LicenseArn license\<rparr> (remote w) =
          (Inr res, s')
        \<and> LicenseUsage res = Some lu
        \<and> GrantedLicense.Entitlements license = before @ entitlement # after
        \<and> (\<forall>e \<in> set before.
              \<exists>name. Entitlement.Name e = Some name \<and> name \<noteq> ''RKE_NODE_SUPP'')
        \<and> Entitlement.Name entitlement = Some ''RKE_NODE_SUPP''
        \<and> MaxCount entitlement = Some M
        \<and> EntitlementUsages lu = earlier @ usage # later
        \<and> (\<forall>u \<in> set earlier.
              \<exists>name. EntitlementUsage.Name u = Some name
                \<and> (name = ''RKE_NODE_SUPP'' \<longrightarrow>
                     (\<exists>str v. ConsumedValue u = Some str \<and> Atoi str = (v, None))))
        \<and> EntitlementUsage.Name usage = Some ''RKE_NODE_SUPP''
        \<and> ConsumedValue usage = Some str
        \<and> Atoi str = (v, Some err)"
  then have max: "getMaxRKEEntitlements license = Returns (M, None)"
    unfolding getMaxRKEEntitlements_def
    by (simp add: getMaxRKEEntitlements_loop_found)
  from a have "usage_loop M 0 (earlier @ usage # later) = Returns (0, Some err)"
    by (intro usage_loop_parse_error_at) blast+
  moreover from a have "GetLicenseUsage (lm c)
          \<lparr>GetLicenseUsageInput.LicenseArn = GrantedLicense.LicenseArn license\<rparr> (remote w) =
          (Inr res, s')" and "LicenseUsage res = Some lu"
      and "EntitlementUsages lu = earlier @ usage # later" by blast+
  ultimately show "fst (GetNumberOfAvailableEntitlements c license w) = Returns (0, Some err)"
    using max by (simp add: GetNumberOfAvailableEntitlements_answer[of c license w "Inr res" s'])
qed

theorem GetNumberOfAvailableEntitlements_failures_witness:
  "fst (GetNumberOfAvailableEntitlements
          (stub_client (stub_lm (\<lambda>_. Inr []) (Inl (errorString ''none''))
             (Inl (errorString ''AccessDeniedException''))))
          (rke_license None 100) world0) =
     Returns (0, Some (errorString ''AccessDeniedException''))
   \<and> fst (GetNumberOfAvailableEntitlements
          (stub_client (stub_lm (\<lambda>_. Inr []) (Inl (errorString ''none''))
             (Inr (usage_of [(Some ''RKE_NODE_SUPP'', Some ''30'')]))))
          ((rke_license None 100)\<lparr>GrantedLicense.Entitlements :=
              [\<lparr>Entitlement.Name = Some ''USERS'', MaxCount = Some 7\<rparr>]\<rparr>) world0) =
     Returns (0, Some (errorString
       ''entitlement RKE_NODE_SUPP not found on license for arn:aws:license-manager::123456789012:license:l-1''))
   \<and> fst (GetNumberOfAvailableEntitlements
          (stub_client (stub_lm (\<lambda>_. Inr []) (Inl (errorString ''none''))
             (Inr (usage_of [(Some ''RKE_NODE_SUPP'', Some ''30''),
                             (Some ''RKE_NODE_SUPP'', Some ''2x''),
                             (None, Some ''1'')]))))
          (rke_license None 100) world0) =
     Returns (0, Some (NumError ''Atoi'' ''2x'' ErrSyntax))"
proof (intro conjI)
  let ?c = "stub_client (stub_lm (\<lambda>_. Inr []) (Inl (errorString ''none''))
             (Inl (errorString ''AccessDeniedException'')))"
  let ?l = "rke_license None 100"
  have usage: "GetLicenseUsage (lm ?c)
                    \<lparr>GetLicenseUsageInput.LicenseArn = GrantedLicense.LicenseArn ?l\<rparr>
                    (remote world0) = (Inl (errorString ''AccessDeniedException''), 1)"
    by (simp add: stub_client_def stub_lm_def world0_def)
  from GetNumberOfAvailableEntitlements_failures[of ?c ?l world0, THEN conjunct1] usage
  show "fst (GetNumberOfAvailableEntitlements ?c ?l world0) =
     Returns (0, Some (errorString ''AccessDeniedException''))"
    by blast
next
  let ?recs = "[(Some ''RKE_NODE_SUPP'', Some ''30'')]"
  let ?c = "stub_client (stub_lm (\<lambda>_. Inr []) (Inl (errorString ''none''))
             (Inr (usage_of ?recs)))"
  let ?l = "(rke_license None 100)\<lparr>GrantedLicense.Entitlements :=
              [\<lparr>Entitlement.Name = Some ''USERS'', MaxCount = Some 7\<rparr>]\<rparr>"
  let ?arn = "''arn:aws:license-manager::123456789012:license:l-1''"
  have usage: "GetLicenseUsage (lm ?c)
                    \<lparr>GetLicenseUsageInput.LicenseArn = GrantedLicense.LicenseArn ?l\<rparr>
                    (remote world0) = (Inr (usage_of ?recs), 1)"
    by (simp add: stub_client_def stub_lm_def world0_def)
  have arn: "GrantedLicense.LicenseArn ?l = Some ?arn" by (simp add: rke_license_def)
  have absent: "\<forall>e \<in> set (GrantedLicense.Entitlements ?l).
              \<exists>name. Entitlement.Name e = Some name \<and> name \<noteq> ''RKE_NODE_SUPP''"
    by simp
  from GetNumberOfAvailableEntitlements_failures[of ?c ?l world0, THEN conjunct2, THEN conjunct1]
    usage arn absent
  have "fst (GetNumberOfAvailableEntitlements ?c ?l world0) =
     Returns (0, Some (errorString (''entitlement RKE_NODE_SUPP not found on license for '' @ ?arn)))"
    by blast
  then show "fst (GetNumberOfAvailableEntitlements ?c ?l world0) =
     Returns (0, Some (errorString
       ''entitlement RKE_NODE_SUPP not found on license for arn:aws:license-manager::123456789012:license:l-1''))"
    by simp
next
  let ?recs = "[(Some ''RKE_NODE_SUPP'', Some ''30''), (Some ''RKE_NODE_SUPP'', Some ''2x''),
                (None, Some ''1'')]"
  let ?c = "stub_client (stub_lm (\<lambda>_. Inr []) (Inl (errorString ''none''))
             (Inr (usage_of ?recs)))"
  let ?l = "rke_license None 100"
  let ?lu = "\<lparr>EntitlementUsages =
        map (\<lambda>(n, v). \<lparr>EntitlementUsage.Name = n, ConsumedValue = v\<rparr>) ?recs\<rparr>"
  let ?u1 = "\<lparr>EntitlementUsage.Name = Some ''RKE_NODE_SUPP'', ConsumedValue = Some ''30''\<rparr>"
  let ?u2 = "\<lparr>EntitlementUsage.Name = Some ''RKE_NODE_SUPP'', ConsumedValue = Some ''2x''\<rparr>"
  let ?u3 = "\<lparr>EntitlementUsage.Name = None, ConsumedValue = Some ''1''\<rparr>"
  have usage: "GetLicenseUsage (lm ?c)
                    \<lparr>GetLicenseUsageInput.LicenseArn = GrantedLicense.LicenseArn ?l\<rparr>
                    (remote world0) = (Inr (usage_of ?recs), 1)"
    by (simp add: stub_client_def stub_lm_def world0_def)
  have present: "LicenseUsage (usage_of ?recs) = Some ?lu" by (simp add: usage_of_def)
  have entitlements: "GrantedLicense.Entitlements ?l =
      [\<lparr>Entitlement.Name = Some ''USERS'', MaxCount = Some 7\<rparr>] @
      \<lparr>Entitlement.Name = Some ''RKE_NODE_SUPP'', MaxCount = Some 100\<rparr> # []"
    by (simp add: rke_license_def)
  have others: "\<forall>e \<in> set [\<lparr>Entitlement.Name = Some ''USERS'', MaxCount = Some 7\<rparr>].
                     \<exists>name. Entitlement.Name e = Some name \<and> name \<noteq> ''RKE_NODE_SUPP''"
    by simp
  have dimension: "Entitlement.Name \<lparr>Entitlement.Name = Some ''RKE_NODE_SUPP'', MaxCount = Some 100\<rparr>
      = Some ''RKE_NODE_SUPP''" by simp
  have maximum: "MaxCount \<lparr>Entitlement.Name = Some ''RKE_NODE_SUPP'', MaxCount = Some 100\<rparr>
      = Some 100" by simp
  have split: "EntitlementUsages ?lu = [?u1] @ ?u2 # [?u3]" by simp
  have earlier: "\<forall>u \<in> set [?u1].
              \<exists>name. EntitlementUsage.Name u = Some name
                \<and> (name = ''RKE_NODE_SUPP'' \<longrightarrow>
                     (\<exists>str v. ConsumedValue u = Some str \<and> Atoi str = (v, None)))"
    by (simp add: Atoi_eval)
  have named: "EntitlementUsage.Name ?u2 = Some ''RKE_NODE_SUPP''" by simp
  have valued: "ConsumedValue ?u2 = Some ''2x''" by simp
  have unparsable: "Atoi ''2x'' = (0, Some (NumError ''Atoi'' ''2x'' ErrSyntax))"
    by (simp add: Atoi_eval)
  from GetNumberOfAvailableEntitlements_failures[of ?c ?l world0, THEN conjunct2, THEN conjunct2]
    usage present entitlements others dimension maximum split earlier named valued unparsable
  show "fst (GetNumberOfAvailableEntitlements ?c ?l world0) =
     Returns (0, Some (NumError ''Atoi'' ''2x'' ErrSyntax))"
    by blast
qed

text \<open>
  Claim C8 says that every optional field is checked before it is read. It does not
  hold for \<^verbatim>\<open>getMaxRKEEntitlements\<close> and for the loop over the usage records, which
  read \<^verbatim>\<open>*entitlement.Name\<close>, \<^verbatim>\<open>*entitlement.MaxCount\<close>, \<^verbatim>\<open>*license.LicenseArn\<close>,
  \<^verbatim>\<open>res.LicenseUsage\<close>, \<^verbatim>\<open>*usage.Name\<close> and \<^verbatim>\<open>*usage.ConsumedValue\<close> unchecked:
  with any one of them absent the operation panics instead of returning an error.
\<close>

theorem GetNumberOfAvailableEntitlements_panics_on_absent_field:
  "fst (GetNumberOfAvailableEntitlements
          (stub_client (stub_lm (\<lambda>_. Inr []) (Inl (errorString ''none''))
             (Inr (usage_of [(Some ''RKE_NODE_SUPP'', Some ''30'')]))))
          ((rke_license None 100)\<lparr>GrantedLicense.Entitlements :=
              [\<lparr>Entitlement.Name = None, MaxCount = Some 100\<rparr>]\<rparr>) world0) = Panics
   \<and> fst (GetNumberOfAvailableEntitlements
          (stub_client (stub_lm (\<lambda>_. Inr []) (Inl (errorString ''none''))
             (Inr (usage_of [(Some ''RKE_NODE_SUPP'', Some ''30'')]))))
          ((rke_license None 100)\<lparr>GrantedLicense.Entitlements :=
              [\<lparr>Entitlement.Name = Some ''RKE_NODE_SUPP'', MaxCount = None\<rparr>]\<rparr>) world0) = Panics
   \<and> fst (GetNumberOfAvailableEntitlements
          (stub_client (stub_lm (\<lambda>_. Inr []) (Inl (errorString ''none''))
             (Inr (usage_of [(Some ''RKE_NODE_SUPP'', Some ''30'')]))))
          ((rke_license None 100)\<lparr>GrantedLicense.LicenseArn := None,
              GrantedLicense.Entitlements := []\<rparr>) world0) = Panics
   \<and> fst (GetNumberOfAvailableEntitlements
          (stub_client (stub_lm (\<lambda>_. Inr []) (Inl (errorString ''none''))
             (Inr (usage_of [(None, Some ''30'')]))))
          (rke_license None 100) world0) = Panics
   \<and> fst (GetNumberOfAvailableEntitlements
          (stub_client (stub_lm (\<lambda>_. Inr []) (Inl (errorString ''none''))
             (Inr (usage_of [(Some ''RKE_NODE_SUPP'', None)]))))
          (rke_license None 100) world0) = Panics
   \<and> fst (GetNumberOfAvailableEntitlements
          (stub_client (stub_lm (\<lambda>_. Inr []) (Inl (errorString ''none''))
             (Inr \<lparr>LicenseUsage = None\<rparr>)))
          (rke_license None 100) world0) = Panics"
  by (simp add: available_eval)

end
